theory Spec2Isabelle
  imports Complex_Main "HOL-Library.Sublist"
begin

section \<open>JavaScript values of the dashboard script\<close>

text \<open>
  The script \<^verbatim>\<open>src/js/sales-revenue.js\<close> receives JSON payloads and paints them into the
  page. A JavaScript string is a sequence of UTF-16 code units; it is modelled as a list of
  code units (natural numbers), so that \<^verbatim>\<open>charAt(0)\<close> is the first element of the list and
  \<^verbatim>\<open>length\<close> is the length of the list. \<open>ascii\<close> embeds an ASCII literal.
\<close>

type_synonym jsstring = "nat list"

definition ascii :: "string \<Rightarrow> jsstring" where
  "ascii s = map of_char s"

text \<open>
  A payload is a JSON value, extended with \<^verbatim>\<open>undefined\<close> (the value of a missing property).
  JSON numbers are finite doubles; a number is modelled by the rational it denotes. An object
  is the association list of its own properties.
\<close>

datatype jsval =
    JUndefined
  | JNull
  | JBool bool
  | JNum rat
  | JStr jsstring
  | JArr "jsval list"
  | JObj "(jsstring \<times> jsval) list"

text \<open>Every exception the script can raise on JSON data is a \<^verbatim>\<open>TypeError\<close>.\<close>

datatype error = TypeError

text \<open>The result of converting a value to a number: \<^verbatim>\<open>NaN\<close>, an infinity, or a finite number.\<close>

datatype jsnumber = NaN | PosInfinity | NegInfinity | Finite rat

text \<open>
  The operations of the host (the browser's JavaScript engine) on numbers are floating-point
  and locale dependent and are not part of the script; they are parameters of the model:
  \<^item> \<open>num_to_string\<close>: \<^verbatim>\<open>Number::toString\<close>, used by string concatenation and interpolation;
  \<^item> \<open>num_to_locale\<close>: \<^verbatim>\<open>Number.prototype.toLocaleString('tr-TR')\<close>;
  \<^item> \<open>string_to_number\<close>: \<^verbatim>\<open>StringToNumber\<close>, used when a string is compared with a number;
  \<^item> \<open>num_div\<close>: the division \<^verbatim>\<open>/\<close> of two doubles.
\<close>

record host =
  num_to_string :: "rat \<Rightarrow> jsstring"
  num_to_locale :: "rat \<Rightarrow> jsstring"
  string_to_number :: "jsstring \<Rightarrow> jsnumber"
  num_div :: "rat \<Rightarrow> rat \<Rightarrow> rat"

definition bind_res :: "error + 'a \<Rightarrow> ('a \<Rightarrow> error + 'b) \<Rightarrow> error + 'b" where
  "bind_res m f = (case m of Inl e \<Rightarrow> Inl e | Inr v \<Rightarrow> f v)"

text \<open>\<^verbatim>\<open>ToBoolean\<close>: the falsy values are undefined, null, false, 0 and the empty string.\<close>

fun truthy :: "jsval \<Rightarrow> bool" where
  "truthy JUndefined = False"
| "truthy JNull = False"
| "truthy (JBool b) = b"
| "truthy (JNum n) = (n \<noteq> 0)"
| "truthy (JStr s) = (s \<noteq> [])"
| "truthy (JArr xs) = True"
| "truthy (JObj kvs) = True"

text \<open>The operator \<^verbatim>\<open>a || b\<close> on values.\<close>

definition js_or :: "jsval \<Rightarrow> jsval \<Rightarrow> jsval" where
  "js_or a b = (if truthy a then a else b)"

text \<open>
  Reading a property \<^verbatim>\<open>v.k\<close>, for the property names the script reads (\<^verbatim>\<open>labels\<close>,
  \<^verbatim>\<open>values\<close>, \<^verbatim>\<open>length\<close>, the metric and product fields): null and undefined raise, an
  object gives its own property or undefined, arrays and strings have a \<^verbatim>\<open>length\<close>.
  (An array inherits a method named \<^verbatim>\<open>values\<close>; the script reads \<^verbatim>\<open>values\<close> only from
  data that has truthy \<^verbatim>\<open>labels\<close>, which an array has not.)
\<close>

fun get_prop :: "jsval \<Rightarrow> jsstring \<Rightarrow> error + jsval" where
  "get_prop JUndefined k = Inl TypeError"
| "get_prop JNull k = Inl TypeError"
| "get_prop (JObj kvs) k = Inr (case map_of kvs k of Some v \<Rightarrow> v | None \<Rightarrow> JUndefined)"
| "get_prop (JArr xs) k = Inr (if k = ascii ''length'' then JNum (of_nat (length xs)) else JUndefined)"
| "get_prop (JStr s) k = Inr (if k = ascii ''length'' then JNum (of_nat (length s)) else JUndefined)"
| "get_prop (JBool b) k = Inr JUndefined"
| "get_prop (JNum n) k = Inr JUndefined"

text \<open>
  \<^verbatim>\<open>ToString\<close>. An array is joined with commas, null and undefined elements giving the empty
  string. An object takes \<^verbatim>\<open>Object.prototype.toString\<close> unless an own property named
  \<^verbatim>\<open>toString\<close> (a JSON value, hence not callable) shadows it, in which case the conversion
  raises.
\<close>

fun ToString :: "host \<Rightarrow> jsval \<Rightarrow> error + jsstring"
  and join_elems :: "host \<Rightarrow> jsval list \<Rightarrow> error + jsstring" where
  "ToString h JUndefined = Inr (ascii ''undefined'')"
| "ToString h JNull = Inr (ascii ''null'')"
| "ToString h (JBool b) = Inr (if b then ascii ''true'' else ascii ''false'')"
| "ToString h (JNum n) = Inr (num_to_string h n)"
| "ToString h (JStr s) = Inr s"
| "ToString h (JArr xs) = join_elems h xs"
| "ToString h (JObj kvs) =
     (if map_of kvs (ascii ''toString'') = None then Inr (ascii ''[object Object]'')
      else Inl TypeError)"
| "join_elems h [] = Inr []"
| "join_elems h (x # xs) =
     bind_res (if x = JUndefined \<or> x = JNull then Inr [] else ToString h x) (\<lambda>s.
     if xs = [] then Inr s
     else bind_res (join_elems h xs) (\<lambda>r. Inr (s @ ascii '','' @ r)))"

text \<open>
  \<^verbatim>\<open>ToNumber\<close>: an array or object is first converted to a primitive, which for JSON data is
  its string.
\<close>

fun ToNumber :: "host \<Rightarrow> jsval \<Rightarrow> error + jsnumber" where
  "ToNumber h JUndefined = Inr NaN"
| "ToNumber h JNull = Inr (Finite 0)"
| "ToNumber h (JBool b) = Inr (Finite (if b then 1 else 0))"
| "ToNumber h (JNum n) = Inr (Finite n)"
| "ToNumber h (JStr s) = Inr (string_to_number h s)"
| "ToNumber h v = bind_res (ToString h v) (\<lambda>s. Inr (string_to_number h s))"

text \<open>The comparison \<^verbatim>\<open>v > 0\<close>.\<close>

definition gt_zero :: "host \<Rightarrow> jsval \<Rightarrow> error + bool" where
  "gt_zero h v = bind_res (ToNumber h v) (\<lambda>n.
     Inr (case n of NaN \<Rightarrow> False | PosInfinity \<Rightarrow> True | NegInfinity \<Rightarrow> False
          | Finite q \<Rightarrow> 0 < q))"

text \<open>
  The method call \<^verbatim>\<open>v.toLocaleString('tr-TR')\<close>. Null and undefined raise. A string or
  boolean inherits \<^verbatim>\<open>Object.prototype.toLocaleString\<close>, which returns its string; an array
  joins its elements' results; an object raises when an own property shadows the method.
\<close>

fun toLocaleString :: "host \<Rightarrow> jsval \<Rightarrow> error + jsstring"
  and locale_elems :: "host \<Rightarrow> jsval list \<Rightarrow> error + jsstring" where
  "toLocaleString h JUndefined = Inl TypeError"
| "toLocaleString h JNull = Inl TypeError"
| "toLocaleString h (JNum n) = Inr (num_to_locale h n)"
| "toLocaleString h (JStr s) = Inr s"
| "toLocaleString h (JBool b) = Inr (if b then ascii ''true'' else ascii ''false'')"
| "toLocaleString h (JArr xs) = locale_elems h xs"
| "toLocaleString h (JObj kvs) =
     (if map_of kvs (ascii ''toLocaleString'') = None then ToString h (JObj kvs)
      else Inl TypeError)"
| "locale_elems h [] = Inr []"
| "locale_elems h (x # xs) =
     bind_res (if x = JUndefined \<or> x = JNull then Inr [] else toLocaleString h x) (\<lambda>s.
     if xs = [] then Inr s
     else bind_res (locale_elems h xs) (\<lambda>r. Inr (s @ ascii '','' @ r)))"

text \<open>
  \<^verbatim>\<open>v.charAt(0)\<close>: only a string has the method; it gives the first code unit, or the
  empty string for the empty string.
\<close>

fun charAt0 :: "jsval \<Rightarrow> error + jsstring" where
  "charAt0 (JStr s) = Inr (take 1 s)"
| "charAt0 v = Inl TypeError"

section \<open>The page: text targets, containers and chart instances\<close>

text \<open>
  The page supplies the elements the script looks up by id; they are taken to exist. An
  element created by the script has a class name and the markup assigned to its
  \<^verbatim>\<open>innerHTML\<close>. The content of a container is a list of nodes: markup assigned through the
  container's own \<^verbatim>\<open>innerHTML\<close>, kept as its source text, or an element appended with
  \<^verbatim>\<open>appendChild\<close>.
\<close>

record element =
  className :: jsstring
  innerHTML :: jsstring

datatype node = Markup jsstring | Child element

text \<open>
  The context object the chart library passes to the tooltip callback of the line chart:
  \<^verbatim>\<open>context.dataset.label\<close> and \<^verbatim>\<open>context.parsed.y\<close> (a number, or \<open>None\<close> for null).
\<close>

record tooltip_context =
  ctx_dataset_label :: jsval
  ctx_parsed_y :: "rat option"

text \<open>
  The configuration handed to \<^verbatim>\<open>new Chart\<close>: the chart type, the labels, the single dataset
  (its label, data and background colour) and the two formatting callbacks of the line chart.
  Styling options are left out.
\<close>

record chart_config =
  chart_type :: jsstring
  chart_labels :: jsval
  dataset_label :: jsval
  dataset_data :: jsval
  backgroundColor :: jsval
  y_ticks_callback :: "(rat \<Rightarrow> jsstring) option"
  tooltip_label :: "(tooltip_context \<Rightarrow> error + jsstring) option"

text \<open>A chart instance is bound to a canvas and is live until \<^verbatim>\<open>destroy()\<close> is called on it.\<close>

record chart =
  canvas :: string
  config :: chart_config
  destroyed :: bool

text \<open>
  The state the script works on: the text of the metric targets, the content of the two
  containers, every chart instance constructed so far (an instance is named by its
  position), and the two variables \<^verbatim>\<open>revenueTrendChart\<close> and \<^verbatim>\<open>salesByChannelChart\<close>
  (\<open>None\<close> while undefined).
\<close>

record page =
  textContent :: "string \<Rightarrow> jsstring"
  content :: "string \<Rightarrow> node list"
  instances :: "chart list"
  revenueTrendChart :: "nat option"
  salesByChannelChart :: "nat option"

text \<open>A procedure of the script returns the exception it raised, if any, and the state it left.\<close>

type_synonym proc = "page \<Rightarrow> error option \<times> page"

definition skip :: proc where
  "skip st = (None, st)"

definition seq :: "proc \<Rightarrow> proc \<Rightarrow> proc" where
  "seq p q st = (case p st of (Some e, st') \<Rightarrow> (Some e, st') | (None, st') \<Rightarrow> q st')"

text \<open>\<^verbatim>\<open>element.textContent = v\<close>: null gives the empty text, any other value its string.\<close>

definition set_textContent :: "host \<Rightarrow> string \<Rightarrow> jsval \<Rightarrow> proc" where
  "set_textContent h elem v st =
     (case (if v = JNull then Inr [] else ToString h v) of
        Inl e \<Rightarrow> (Some e, st)
      | Inr s \<Rightarrow> (None, st\<lparr>textContent := (textContent st)(elem := s)\<rparr>))"

text \<open>\<^verbatim>\<open>container.innerHTML = s\<close> replaces the whole content of the container.\<close>

definition set_innerHTML :: "string \<Rightarrow> jsstring \<Rightarrow> page \<Rightarrow> page" where
  "set_innerHTML elem s st =
     st\<lparr>content := (content st)(elem := (if s = [] then [] else [Markup s]))\<rparr>"

definition appendChild :: "string \<Rightarrow> element \<Rightarrow> page \<Rightarrow> page" where
  "appendChild elem el st = st\<lparr>content := (content st)(elem := content st elem @ [Child el])\<rparr>"

text \<open>
  \<^verbatim>\<open>new Chart(ctx, cfg)\<close> constructs a live instance on the canvas and returns it;
  \<^verbatim>\<open>destroy()\<close> ends the life of an instance. The chart library is not part of the script:
  both calls are taken to return normally.
\<close>

definition new_Chart :: "string \<Rightarrow> chart_config \<Rightarrow> page \<Rightarrow> nat \<times> page" where
  "new_Chart c cfg st =
     (length (instances st),
      st\<lparr>instances := instances st @ [\<lparr>canvas = c, config = cfg, destroyed = False\<rparr>]\<rparr>)"

definition destroy :: "nat \<Rightarrow> page \<Rightarrow> page" where
  "destroy i st = st\<lparr>instances := (instances st)[i := (instances st ! i)\<lparr>destroyed := True\<rparr>]\<rparr>"

text \<open>The instances that are live on a canvas.\<close>

definition live_on :: "page \<Rightarrow> string \<Rightarrow> nat list" where
  "live_on st c =
     filter (\<lambda>i. canvas (instances st ! i) = c \<and> \<not> destroyed (instances st ! i))
       [0 ..< length (instances st)]"

section \<open>updateMetrics\<close>

text \<open>The currency sign \<^verbatim>\<open>U+20BA\<close> of the script's literals.\<close>

definition lira :: jsstring where
  "lira = [8378]"

text \<open>
  One line of \<^verbatim>\<open>updateMetrics\<close>:
  \<^verbatim>\<open>document.getElementById(id).textContent = data.field || dflt\<close>.
\<close>

definition assign_metric :: "host \<Rightarrow> jsval \<Rightarrow> string \<Rightarrow> jsstring \<Rightarrow> proc" where
  "assign_metric h data field dflt st =
     (case get_prop data (ascii field) of
        Inl e \<Rightarrow> (Some e, st)
      | Inr v \<Rightarrow> set_textContent h field (js_or v (JStr dflt)) st)"

definition updateMetrics :: "host \<Rightarrow> jsval \<Rightarrow> proc" where
  "updateMetrics h data =
     (if truthy data then
        seq (assign_metric h data ''totalRevenue'' (ascii ''$2.4M''))
       (seq (assign_metric h data ''conversionRate'' (ascii ''3.47%''))
       (seq (assign_metric h data ''averageBasket'' (lira @ ascii ''347''))
            (assign_metric h data ''totalOrders'' (ascii ''6,847''))))
      else skip)"

section \<open>updateRevenueTrendChart\<close>

text \<open>The guard \<^verbatim>\<open>data && data.labels && data.values\<close> of both chart updaters.\<close>

definition has_labels_and_values :: "jsval \<Rightarrow> error + bool" where
  "has_labels_and_values data =
     (if \<not> truthy data then Inr False
      else bind_res (get_prop data (ascii ''labels'')) (\<lambda>l.
        if \<not> truthy l then Inr False
        else bind_res (get_prop data (ascii ''values'')) (\<lambda>v. Inr (truthy v))))"

text \<open>
  The tick callback of the y axis: the lira sign, then \<^verbatim>\<open>(value / 1000)\<close> as a string, then
  \<^verbatim>\<open>'K'\<close>.
\<close>

definition y_ticks :: "host \<Rightarrow> rat \<Rightarrow> jsstring" where
  "y_ticks h val = lira @ num_to_string h (num_div h val 1000) @ ascii ''K''"

text \<open>
  The tooltip callback of the line chart:
  \<^verbatim>\<open>let label = context.dataset.label || '';
  if (label) { label += ': '; }
  if (context.parsed.y !== null) { label += L + context.parsed.y.toLocaleString('tr-TR'); }
  return label;\<close>
  where \<^verbatim>\<open>L\<close> is the string of the lira sign.
\<close>

definition trend_tooltip_label :: "host \<Rightarrow> tooltip_context \<Rightarrow> error + jsstring" where
  "trend_tooltip_label h c =
     (let label = js_or (ctx_dataset_label c) (JStr [])
      in bind_res (if truthy label then bind_res (ToString h label) (\<lambda>s. Inr (s @ ascii '': ''))
                   else ToString h label) (\<lambda>label.
         case ctx_parsed_y c of
           None \<Rightarrow> Inr label
         | Some y \<Rightarrow> Inr (label @ lira @ num_to_locale h y)))"

definition trend_config :: "host \<Rightarrow> jsval \<Rightarrow> jsval \<Rightarrow> chart_config" where
  "trend_config h labels vals =
     \<lparr>chart_type = ascii ''line'',
      chart_labels = labels,
      dataset_label = JStr (ascii ''Toplam Gelir''),
      dataset_data = vals,
      backgroundColor = JStr (ascii ''rgba(136, 111, 228, 0.2)''),
      y_ticks_callback = Some (y_ticks h),
      tooltip_label = Some (trend_tooltip_label h)\<rparr>"

text \<open>
  The body of the updater once the guard has passed: destroy the instance held in the
  variable, if any, construct the new one and store it in the variable.
\<close>

definition replace_trend_chart :: "host \<Rightarrow> jsval \<Rightarrow> jsval \<Rightarrow> page \<Rightarrow> page" where
  "replace_trend_chart h labels vals st =
     (let st1 = (case revenueTrendChart st of Some i \<Rightarrow> destroy i st | None \<Rightarrow> st);
          (i, st2) = new_Chart ''revenueTrendChart'' (trend_config h labels vals) st1
      in st2\<lparr>revenueTrendChart := Some i\<rparr>)"

definition updateRevenueTrendChart :: "host \<Rightarrow> jsval \<Rightarrow> proc" where
  "updateRevenueTrendChart h data st =
     (case has_labels_and_values data of
        Inl e \<Rightarrow> (Some e, st)
      | Inr False \<Rightarrow> (None, st)
      | Inr True \<Rightarrow>
          (case bind_res (get_prop data (ascii ''labels'')) (\<lambda>l.
                bind_res (get_prop data (ascii ''values'')) (\<lambda>v. Inr (l, v))) of
             Inl e \<Rightarrow> (Some e, st)
           | Inr (l, v) \<Rightarrow> (None, replace_trend_chart h l v st)))"

section \<open>updateSalesByChannelChart and createChannelLegends\<close>

definition channelColors :: "jsstring list" where
  "channelColors =
     [ascii ''#886FE4'', ascii ''#E0B8FF'', ascii ''#6A5ACD'', ascii ''#9370DB'',
      ascii ''#A9A9A9'']"

text \<open>
  \<^verbatim>\<open>xs.slice(0, end)\<close>: an undefined end is the length; otherwise the end is converted to
  an integer (\<^verbatim>\<open>NaN\<close> to 0, truncating towards zero), a negative end counts from the
  back, and the result is clamped to the length.
\<close>

fun slice_end :: "nat \<Rightarrow> jsnumber \<Rightarrow> nat" where
  "slice_end len NaN = 0"
| "slice_end len PosInfinity = len"
| "slice_end len NegInfinity = 0"
| "slice_end len (Finite q) =
     (let k = (if q < 0 then \<lceil>q\<rceil> else \<lfloor>q\<rfloor>)
      in if k < 0 then nat (max (int len + k) 0) else min (nat k) len)"

definition slice0 :: "host \<Rightarrow> 'a list \<Rightarrow> jsval \<Rightarrow> error + 'a list" where
  "slice0 h xs end =
     (if end = JUndefined then Inr xs
      else bind_res (ToNumber h end) (\<lambda>n. Inr (take (slice_end (length xs) n) xs)))"

text \<open>\<^verbatim>\<open>channelColors.slice(0, data.labels.length)\<close>, for the labels already read.\<close>

definition channel_colors_for :: "host \<Rightarrow> jsval \<Rightarrow> error + jsstring list" where
  "channel_colors_for h labels =
     bind_res (get_prop labels (ascii ''length'')) (\<lambda>n. slice0 h channelColors n)"

text \<open>\<^verbatim>\<open>colors[index]\<close>: undefined beyond the end of the array.\<close>

definition color_at :: "jsstring list \<Rightarrow> nat \<Rightarrow> jsval" where
  "color_at colors i = (if i < length colors then JStr (colors ! i) else JUndefined)"

text \<open>A line break of a template literal followed by its indentation.\<close>

definition nl :: "nat \<Rightarrow> jsstring" where
  "nl n = 10 # replicate n 32"

definition legend_markup :: "jsstring \<Rightarrow> jsstring \<Rightarrow> jsstring" where
  \<open>legend_markup color label =
     nl 16 @ ascii ''<span style="display:inline-block; width:12px; height:12px; background-color:''
     @ color @ ascii ''; border-radius:3px; margin-right:8px;"></span>''
     @ nl 16 @ ascii ''<span class="text-white-50 small">'' @ label @ ascii ''</span>''
     @ nl 12\<close>

definition legendItem :: "host \<Rightarrow> jsstring list \<Rightarrow> jsval \<Rightarrow> nat \<Rightarrow> error + element" where
  "legendItem h colors label index =
     bind_res (ToString h (color_at colors index)) (\<lambda>c.
     bind_res (ToString h label) (\<lambda>l.
     Inr \<lparr>className = ascii ''d-flex align-items-center me-3 my-1'',
          innerHTML = legend_markup c l\<rparr>))"

text \<open>The body of \<^verbatim>\<open>labels.forEach((label, index) => ...)\<close>, from index \<open>i\<close> on.\<close>

fun legend_loop :: "host \<Rightarrow> jsstring list \<Rightarrow> jsval list \<Rightarrow> nat \<Rightarrow> proc" where
  "legend_loop h colors [] i st = (None, st)"
| "legend_loop h colors (label # rest) i st =
     (case legendItem h colors label i of
        Inl e \<Rightarrow> (Some e, st)
      | Inr el \<Rightarrow> legend_loop h colors rest (Suc i) (appendChild ''channelLegends'' el st))"

text \<open>Only an array has \<^verbatim>\<open>forEach\<close>; on any other value the call raises.\<close>

definition createChannelLegends :: "host \<Rightarrow> jsval \<Rightarrow> jsstring list \<Rightarrow> proc" where
  "createChannelLegends h labels colors st =
     (let st1 = set_innerHTML ''channelLegends'' [] st
      in case labels of
           JArr ls \<Rightarrow> legend_loop h colors ls 0 st1
         | _ \<Rightarrow> (Some TypeError, st1))"

definition channel_config :: "jsval \<Rightarrow> jsval \<Rightarrow> jsstring list \<Rightarrow> chart_config" where
  "channel_config labels vals colors =
     \<lparr>chart_type = ascii ''doughnut'',
      chart_labels = labels,
      dataset_label = JUndefined,
      dataset_data = vals,
      backgroundColor = JArr (map JStr colors),
      y_ticks_callback = None,
      tooltip_label = None\<rparr>"

definition replace_channel_chart :: "jsval \<Rightarrow> jsval \<Rightarrow> jsstring list \<Rightarrow> page \<Rightarrow> page" where
  "replace_channel_chart labels vals colors st =
     (let (i, st2) = new_Chart ''salesByChannelChart'' (channel_config labels vals colors) st
      in st2\<lparr>salesByChannelChart := Some i\<rparr>)"

text \<open>
  The prior instance is destroyed before the arguments of \<^verbatim>\<open>new Chart\<close> are evaluated, so
  an exception raised by the \<^verbatim>\<open>slice\<close> leaves it destroyed. The legend is given the same
  \<^verbatim>\<open>slice\<close> expression a second time; it has no effect and the same value, and is read
  here from the first.
\<close>

definition updateSalesByChannelChart :: "host \<Rightarrow> jsval \<Rightarrow> proc" where
  "updateSalesByChannelChart h data st =
     (case has_labels_and_values data of
        Inl e \<Rightarrow> (Some e, st)
      | Inr False \<Rightarrow> (None, st)
      | Inr True \<Rightarrow>
          (let st1 = (case salesByChannelChart st of Some i \<Rightarrow> destroy i st | None \<Rightarrow> st)
           in case bind_res (get_prop data (ascii ''labels'')) (\<lambda>l.
                   bind_res (get_prop data (ascii ''values'')) (\<lambda>v.
                   bind_res (channel_colors_for h l) (\<lambda>cs. Inr (l, v, cs)))) of
                Inl e \<Rightarrow> (Some e, st1)
              | Inr (l, v, cs) \<Rightarrow>
                  createChannelLegends h l cs (replace_channel_chart l v cs st1)))"

section \<open>updateTopSellingProducts\<close>

definition product_markup ::
  "jsstring \<Rightarrow> jsstring \<Rightarrow> jsstring \<Rightarrow> jsstring \<Rightarrow> jsstring \<Rightarrow> jsstring" where
  \<open>product_markup src alt bg name price =
     nl 20 @ ascii ''<div class="product-item">''
     @ nl 24 @ ascii ''<div class="product-icon mb-2">''
     @ nl 28 @ ascii ''<img src="'' @ src @ ascii ''" alt="'' @ alt
     @ ascii ''" class="img-fluid rounded-circle product-icon-img" style="background-color:''
     @ bg @ ascii '';">''
     @ nl 24 @ ascii ''</div>''
     @ nl 24 @ ascii ''<h6 class="text-light product-name">'' @ name @ ascii ''</h6>''
     @ nl 24 @ ascii ''<p class="text-muted-subtle small product-price">'' @ lira @ price
     @ ascii ''</p>''
     @ nl 20 @ ascii ''</div>''
     @ nl 16\<close>

text \<open>
  \<^verbatim>\<open>product.iconUrl || 'https://via.placeholder.com/60/ccc/fff?text=' + product.name.charAt(0)\<close>:
  the name is read only when the icon URL is falsy.
\<close>

definition icon_src :: "host \<Rightarrow> jsval \<Rightarrow> error + jsstring" where
  "icon_src h product =
     bind_res (get_prop product (ascii ''iconUrl'')) (\<lambda>u.
     if truthy u then ToString h u
     else bind_res (get_prop product (ascii ''name'')) (\<lambda>n.
          bind_res (charAt0 n) (\<lambda>c.
          Inr (ascii ''https://via.placeholder.com/60/ccc/fff?text='' @ c))))"

text \<open>The element built for one product; the substitutions are evaluated from left to right.\<close>

definition product_card :: "host \<Rightarrow> jsval \<Rightarrow> error + element" where
  "product_card h product =
     bind_res (icon_src h product) (\<lambda>src.
     bind_res (get_prop product (ascii ''name'')) (\<lambda>n.
     bind_res (ToString h n) (\<lambda>name.
     bind_res (get_prop product (ascii ''iconBgColor'')) (\<lambda>b.
     bind_res (ToString h (js_or b (JStr (ascii ''#3e2e60'')))) (\<lambda>bg.
     bind_res (get_prop product (ascii ''price'')) (\<lambda>p.
     bind_res (toLocaleString h p) (\<lambda>price.
     Inr \<lparr>className = ascii ''col-md-2 col-4 mb-3'',
          innerHTML = product_markup src name bg name price\<rparr>)))))))"

text \<open>The body of \<^verbatim>\<open>products.forEach(product => ...)\<close>.\<close>

fun products_loop :: "host \<Rightarrow> jsval list \<Rightarrow> proc" where
  "products_loop h [] st = (None, st)"
| "products_loop h (product # rest) st =
     (case product_card h product of
        Inl e \<Rightarrow> (Some e, st)
      | Inr el \<Rightarrow> products_loop h rest (appendChild ''topSellingProducts'' el st))"

text \<open>The placeholder row: \<^verbatim>\<open>\<dots>text-muted">\<close> followed by the Turkish for \<^emph>\<open>no product found\<close>.\<close>

definition not_found_row :: jsstring where
  \<open>not_found_row =
     ascii ''<div class="col-12 text-center text-muted">'' @ [220] @ ascii ''r'' @ [252]
     @ ascii ''n bulunamad'' @ [305] @ ascii ''.</div>''\<close>

text \<open>The condition \<^verbatim>\<open>products && products.length > 0\<close>.\<close>

definition has_products :: "host \<Rightarrow> jsval \<Rightarrow> error + bool" where
  "has_products h products =
     (if \<not> truthy products then Inr False
      else bind_res (get_prop products (ascii ''length'')) (\<lambda>n. gt_zero h n))"

definition updateTopSellingProducts :: "host \<Rightarrow> jsval \<Rightarrow> proc" where
  "updateTopSellingProducts h products st =
     (let st1 = set_innerHTML ''topSellingProducts'' [] st
      in case has_products h products of
           Inl e \<Rightarrow> (Some e, st1)
         | Inr True \<Rightarrow>
             (case products of
                JArr ps \<Rightarrow> products_loop h ps st1
              | _ \<Rightarrow> (Some TypeError, st1))
         | Inr False \<Rightarrow> (None, set_innerHTML ''topSellingProducts'' not_found_row st1))"

section \<open>fetchData and the mock responses\<close>

definition metrics_url :: jsstring where
  "metrics_url = ascii ''https://api.example.com/dashboard/metrics''"

definition revenueTrend_url :: jsstring where
  "revenueTrend_url = ascii ''https://api.example.com/dashboard/revenue-trend''"

definition salesByChannel_url :: jsstring where
  "salesByChannel_url = ascii ''https://api.example.com/dashboard/sales-by-channel''"

definition topSellingProducts_url :: jsstring where
  "topSellingProducts_url = ascii ''https://api.example.com/dashboard/top-selling-products''"

definition mock_product :: "jsstring \<Rightarrow> rat \<Rightarrow> string \<Rightarrow> string \<Rightarrow> jsval" where
  "mock_product name price icon bg =
     JObj [(ascii ''name'', JStr name), (ascii ''price'', JNum price),
           (ascii ''iconUrl'', JStr (ascii icon)), (ascii ''iconBgColor'', JStr (ascii bg))]"

definition mock_metrics :: jsval where
  "mock_metrics =
     JObj [(ascii ''totalRevenue'', JStr (lira @ ascii ''2.4M'')),
           (ascii ''conversionRate'', JStr (ascii ''3.47%'')),
           (ascii ''averageBasket'', JStr (lira @ ascii ''347'')),
           (ascii ''totalOrders'', JStr (ascii ''6,847'')),
           (ascii ''totalRevenueChange'', JNum (25 / 2)),
           (ascii ''conversionRateChange'', JNum (16 / 5)),
           (ascii ''averageBasketChange'', JNum (81 / 10)),
           (ascii ''totalOrdersChange'', JNum (153 / 10))]"

definition mock_revenue_trend :: jsval where
  "mock_revenue_trend =
     JObj [(ascii ''labels'',
            JArr (map JStr [ascii ''Oca'', [350] @ ascii ''ub'', ascii ''Mar'', ascii ''Nis'',
                            ascii ''May'', ascii ''Haz''])),
           (ascii ''values'',
            JArr [JNum 350000, JNum 380000, JNum 360000, JNum 420000, JNum 450000,
                  JNum 480000])]"

definition mock_sales_by_channel :: jsval where
  "mock_sales_by_channel =
     JObj [(ascii ''labels'',
            JArr (map JStr [ascii ''Web Sitesi'', ascii ''Mobil App'', ascii ''Sosyal Medya'',
                            ascii ''Ma'' @ [287] @ ascii ''aza''])),
           (ascii ''values'', JArr [JNum 40, JNum 25, JNum 20, JNum 15])]"

definition mock_top_selling_products :: "jsval list" where
  "mock_top_selling_products =
     [mock_product (ascii ''Laptop Pro'') 45600
        ''https://via.placeholder.com/60/7B68EE/FFFFFF?text=L'' ''#7B68EE'',
      mock_product (ascii ''Ak'' @ [305] @ ascii ''ll'' @ [305] @ ascii '' Telefon'') 28900
        ''https://via.placeholder.com/60/66CDAA/FFFFFF?text=T'' ''#66CDAA'',
      mock_product (ascii ''Kulakl'' @ [305] @ ascii ''k'') 1250
        ''https://via.placeholder.com/60/9370DB/FFFFFF?text=H'' ''#9370DB'',
      mock_product (ascii ''Tablet'') 8750
        ''https://via.placeholder.com/60/ADD8E6/FFFFFF?text=B'' ''#ADD8E6'',
      mock_product (ascii ''Kamera'') 15600
        ''https://via.placeholder.com/60/FF6347/FFFFFF?text=C'' ''#FF6347'',
      mock_product (ascii ''Ak'' @ [305] @ ascii ''ll'' @ [305] @ ascii '' Saat'') 7200
        ''https://via.placeholder.com/60/FFD700/FFFFFF?text=W'' ''#FFD700'']"

definition MOCK_API_RESPONSES :: "(jsstring \<times> jsval) list" where
  "MOCK_API_RESPONSES =
     [(ascii ''/dashboard/metrics'', mock_metrics),
      (ascii ''/dashboard/revenue-trend'', mock_revenue_trend),
      (ascii ''/dashboard/sales-by-channel'', mock_sales_by_channel),
      (ascii ''/dashboard/top-selling-products'', JArr mock_top_selling_products)]"

text \<open>
  \<^verbatim>\<open>url.includes(mockUrl)\<close>: substring search on a string, membership on an array; any other
  value has no such method and the call raises.
\<close>

fun js_includes :: "jsval \<Rightarrow> jsstring \<Rightarrow> error + bool" where
  "js_includes (JStr s) k = Inr (sublist k s)"
| "js_includes (JArr xs) k = Inr (JStr k \<in> set xs)"
| "js_includes v k = Inl TypeError"

text \<open>\<^verbatim>\<open>keys.find(mockUrl => url.includes(mockUrl))\<close>: the first key that matches.\<close>

fun find_key :: "jsval \<Rightarrow> jsstring list \<Rightarrow> error + jsstring option" where
  "find_key url [] = Inr None"
| "find_key url (k # ks) =
     bind_res (js_includes url k) (\<lambda>b. if b then Inr (Some k) else find_key url ks)"

text \<open>What a promise settles to.\<close>

datatype outcome = Resolved jsval | Rejected error

text \<open>
  The body of \<^verbatim>\<open>fetchData\<close> inside \<^verbatim>\<open>try\<close>: the log line interpolates the URL, then the
  key is searched and, when found, the registered payload is the result (after the timer of
  500 ms, which the model does not measure); otherwise null.
\<close>

definition fetch_body :: "host \<Rightarrow> (jsstring \<times> jsval) list \<Rightarrow> jsval \<Rightarrow> error + jsval" where
  "fetch_body h responses url =
     bind_res (ToString h url) (\<lambda>logged.
     bind_res (find_key url (map fst responses)) (\<lambda>key.
     case key of
       None \<Rightarrow> Inr JNull
     | Some k \<Rightarrow>
         if truthy (JStr k)
         then Inr (case map_of responses k of Some v \<Rightarrow> v | None \<Rightarrow> JUndefined)
         else Inr JNull))"

text \<open>The \<^verbatim>\<open>catch\<close> turns every exception of the body into null.\<close>

definition fetchData :: "host \<Rightarrow> jsval \<Rightarrow> outcome" where
  "fetchData h url =
     (case fetch_body h MOCK_API_RESPONSES url of
        Inr v \<Rightarrow> Resolved v
      | Inl e \<Rightarrow> Resolved JNull)"

section \<open>loadDashboardData\<close>

text \<open>
  What an observer of the orchestrator sees: a call of \<^verbatim>\<open>fetchData\<close>, the settling of the
  promise it returned, and a call of an updater.
\<close>

datatype event = FetchCalled jsstring | FetchSettled jsstring | UpdaterCalled string

text \<open>
  A run of the orchestrator: the events so far, the exception that ended it (the promise of
  \<^verbatim>\<open>loadDashboardData\<close> is then rejected and nothing further runs), and the page.
\<close>

type_synonym run = "event list \<times> error option \<times> page"

definition called :: "string \<Rightarrow> proc \<Rightarrow> page \<Rightarrow> run" where
  "called name p st = (case p st of (e, st') \<Rightarrow> ([UpdaterCalled name], e, st'))"

definition not_called :: "page \<Rightarrow> run" where
  "not_called st = ([], None, st)"

text \<open>
  \<^verbatim>\<open>const data = await fetchData(url); update(data); \<dots>\<close>: the function is suspended until the
  promise settles, then the update runs, then the rest \<open>k\<close> of the function.
\<close>

definition await_fetch ::
  "host \<Rightarrow> jsstring \<Rightarrow> (jsval \<Rightarrow> page \<Rightarrow> run) \<Rightarrow> (event list \<times> page \<Rightarrow> run)
     \<Rightarrow> event list \<times> page \<Rightarrow> run" where
  "await_fetch h url update k = (\<lambda>(tr, st).
     case fetchData h (JStr url) of
       Rejected e \<Rightarrow> (tr @ [FetchCalled url, FetchSettled url], Some e, st)
     | Resolved v \<Rightarrow>
         (case update v st of
            (evs, Some e, st') \<Rightarrow> (tr @ [FetchCalled url, FetchSettled url] @ evs, Some e, st')
          | (evs, None, st') \<Rightarrow> k (tr @ [FetchCalled url, FetchSettled url] @ evs, st')))"

definition returned :: "event list \<times> page \<Rightarrow> run" where
  "returned = (\<lambda>(tr, st). (tr, None, st))"

definition loadDashboardData :: "host \<Rightarrow> page \<Rightarrow> run" where
  "loadDashboardData h st =
     await_fetch h metrics_url (\<lambda>v. called ''updateMetrics'' (updateMetrics h v))
    (await_fetch h revenueTrend_url
       (\<lambda>v. called ''updateRevenueTrendChart'' (updateRevenueTrendChart h v))
    (await_fetch h salesByChannel_url
       (\<lambda>v. if truthy v
            then called ''updateSalesByChannelChart'' (updateSalesByChannelChart h v)
            else not_called)
    (await_fetch h topSellingProducts_url
       (\<lambda>v. called ''updateTopSellingProducts'' (updateTopSellingProducts h v))
     returned)))
     ([], st)"

section \<open>A host and a page to run the model on\<close>

text \<open>
  The theorems below hold for every host. To run the model on concrete payloads a host is
  needed; this one renders a number by the decimal digits of its integral part, groups them
  in threes with a full stop as the Turkish locale does, divides exactly and reads no string
  as a number. It agrees with a browser on the non-negative integral amounts of the sample
  data, which is all the runs below ask of it.
\<close>

fun decimal :: "nat \<Rightarrow> jsstring" where
  "decimal n = (if n < 10 then [48 + n] else decimal (n div 10) @ [48 + n mod 10])"

fun grouped :: "nat \<Rightarrow> jsstring" where
  "grouped n =
     (if n < 1000 then decimal n
      else grouped (n div 1000) @ [46, 48 + n mod 1000 div 100, 48 + n mod 100 div 10, 48 + n mod 10])"

definition sample_host :: host where
  "sample_host =
     \<lparr>num_to_string = (\<lambda>q. decimal (nat \<lfloor>q\<rfloor>)),
      num_to_locale = (\<lambda>q. grouped (nat \<lfloor>q\<rfloor>)),
      string_to_number = (\<lambda>s. NaN),
      num_div = (\<lambda>a b. a / b)\<rparr>"

text \<open>The page before the script has run: empty targets, no chart constructed.\<close>

definition blank_page :: page where
  "blank_page =
     \<lparr>textContent = (\<lambda>_. []), content = (\<lambda>_. []), instances = [],
      revenueTrendChart = None, salesByChannelChart = None\<rparr>"

section \<open>Notions used in the statements\<close>

text \<open>The target (which is also the field name) and the default of each line of \<^verbatim>\<open>updateMetrics\<close>.\<close>

definition metric_defaults :: "(string \<times> jsstring) list" where
  "metric_defaults =
     [(''totalRevenue'', ascii ''$2.4M''), (''conversionRate'', ascii ''3.47%''),
      (''averageBasket'', lira @ ascii ''347''), (''totalOrders'', ascii ''6,847'')]"

text \<open>
  A metrics snapshot carries display strings: each of the four fields is either missing or a
  non-empty string. \<open>shown\<close> is the text expected in a target: the supplied string, or the
  default when the field is missing.
\<close>

fun display_string :: "jsval \<Rightarrow> bool" where
  "display_string (JStr s) = (s \<noteq> [])"
| "display_string v = False"

definition snapshot :: "(jsstring \<times> jsval) list \<Rightarrow> bool" where
  "snapshot kvs =
     list_all (\<lambda>(f, d). case map_of kvs (ascii f) of None \<Rightarrow> True | Some v \<Rightarrow> display_string v)
       metric_defaults"

definition shown :: "(jsstring \<times> jsval) list \<Rightarrow> string \<Rightarrow> jsstring \<Rightarrow> jsstring" where
  "shown kvs f d = (case map_of kvs (ascii f) of Some (JStr s) \<Rightarrow> s | _ \<Rightarrow> d)"

text \<open>
  The variables hold every live instance: an instance that is live on a canvas is the one
  stored in the variable of that canvas.
\<close>

definition well_held :: "page \<Rightarrow> bool" where
  "well_held st =
     (list_all (\<lambda>i. revenueTrendChart st = Some i) (live_on st ''revenueTrendChart'') \<and>
      list_all (\<lambda>i. salesByChannelChart st = Some i) (live_on st ''salesByChannelChart''))"

text \<open>Complete data passes the guard of the chart updaters: it has labels and values.\<close>

definition complete :: "jsval \<Rightarrow> bool" where
  "complete data = (has_labels_and_values data = Inr True)"

definition sample_series :: jsval where
  "sample_series = JObj [(ascii ''labels'', JArr [JStr (ascii ''Web''), JStr (ascii ''App'')]),
                         (ascii ''values'', JArr [JNum 60, JNum 40])]"

text \<open>
  A product summary: an object with a string name, a numeric price and, optionally, a string
  icon URL and a string icon background.
\<close>

fun is_product :: "jsval \<Rightarrow> bool" where
  "is_product (JObj kvs) =
     ((case map_of kvs (ascii ''name'') of Some (JStr s) \<Rightarrow> True | _ \<Rightarrow> False) \<and>
      (case map_of kvs (ascii ''price'') of Some (JNum n) \<Rightarrow> True | _ \<Rightarrow> False) \<and>
      (case map_of kvs (ascii ''iconUrl'') of None \<Rightarrow> True | Some (JStr s) \<Rightarrow> True | _ \<Rightarrow> False) \<and>
      (case map_of kvs (ascii ''iconBgColor'') of None \<Rightarrow> True | Some (JStr s) \<Rightarrow> True
         | _ \<Rightarrow> False))"
| "is_product v = False"

text \<open>The class of a product card, the URL prefix of the generated placeholder image, and the
  background of a product's icon: its \<^verbatim>\<open>iconBgColor\<close>, or the fallback when that is missing
  (or empty).\<close>

definition card_class :: jsstring where
  "card_class = ascii ''col-md-2 col-4 mb-3''"



definition sample_products :: "jsval list" where
  "sample_products =
     [JObj [(ascii ''name'', JStr (ascii ''Tablet'')), (ascii ''price'', JNum 8750)],
      mock_product (ascii ''Kamera'') 15600
        ''https://via.placeholder.com/60/FF6347/FFFFFF?text=C'' ''#FF6347'']"

text \<open>
  The colour shown by the legend swatch at a position, and the legend rows of string labels,
  from a position on.
\<close>

definition swatch :: "jsstring list \<Rightarrow> nat \<Rightarrow> jsstring" where
  "swatch cs i = (if i < length cs then cs ! i else ascii ''undefined'')"

fun legend_rows :: "jsstring list \<Rightarrow> jsstring list \<Rightarrow> nat \<Rightarrow> element list" where
  "legend_rows cs [] i = []"
| "legend_rows cs (l # ls) i =
     \<lparr>className = ascii ''d-flex align-items-center me-3 my-1'',
      innerHTML = legend_markup (swatch cs i) l\<rparr> # legend_rows cs ls (Suc i)"

text \<open>A channel mix with six channels.\<close>

definition six_channels :: jsval where
  "six_channels =
     JObj [(ascii ''labels'',
            JArr (map JStr [ascii ''Web'', ascii ''App'', ascii ''Social'', ascii ''Store'',
                            ascii ''Phone'', ascii ''Mail''])),
           (ascii ''values'', JArr [JNum 30, JNum 25, JNum 20, JNum 10, JNum 10, JNum 5])]"

section \<open>Basic facts\<close>

lemma ascii_eq_iff [simp]: "ascii a = ascii b \<longleftrightarrow> a = b"
  by (simp add: ascii_def inj_map_eq_map inj_of_char)

lemma ascii_Nil_iff [simp]: "ascii a = [] \<longleftrightarrow> a = []"
  by (simp add: ascii_def)

lemma bind_res_simps [simp]:
  "bind_res (Inl e) f = Inl e"
  "bind_res (Inr v) f = f v"
  by (simp_all add: bind_res_def)

section \<open>updateMetrics: defaults and frame\<close>

lemma seq_None [simp]: "p st = (None, st') \<Longrightarrow> seq p q st = q st'"
  by (simp add: seq_def)

lemma seq_Some [simp]: "p st = (Some e, st') \<Longrightarrow> seq p q st = (Some e, st')"
  by (simp add: seq_def)

lemma assign_metric_obj:
  "assign_metric h (JObj kvs) f d st =
     (case ToString h (js_or (case map_of kvs (ascii f) of Some v \<Rightarrow> v | None \<Rightarrow> JUndefined) (JStr d)) of
        Inl e \<Rightarrow> (Some e, st)
      | Inr s \<Rightarrow> (None, st\<lparr>textContent := (textContent st)(f := s)\<rparr>))"
  by (auto simp: assign_metric_def set_textContent_def js_or_def split: option.splits sum.splits)

lemma assign_metric_falsy:
  "map_of kvs (ascii f) = Some v \<Longrightarrow> \<not> truthy v \<Longrightarrow>
   assign_metric h (JObj kvs) f d st = (None, st\<lparr>textContent := (textContent st)(f := d)\<rparr>)"
  by (simp add: assign_metric_obj js_or_def)

lemma assign_metric_falsy_text:
  "map_of kvs (ascii f) = Some v \<Longrightarrow> \<not> truthy v \<Longrightarrow>
   assign_metric h (JObj kvs) f d st = (e, st') \<Longrightarrow> textContent st' f = d"
  by (auto simp: assign_metric_falsy)

lemma assign_metric_other:
  "assign_metric h data f d st = (e, st') \<Longrightarrow> g \<noteq> f \<Longrightarrow> textContent st' g = textContent st g"
  by (auto simp: assign_metric_def set_textContent_def split: sum.splits if_splits)

lemma assign_metric_result:
  "assign_metric h (JObj kvs) f d st = (None, st') \<Longrightarrow>
   ToString h (js_or (case map_of kvs (ascii f) of Some v \<Rightarrow> v | None \<Rightarrow> JUndefined) (JStr d)) = Inr (textContent st' f)"
  by (auto simp: assign_metric_obj split: sum.splits)

lemma updateMetrics_steps:
  assumes "updateMetrics h (JObj kvs) st = (None, st')"
  obtains s1 s2 s3 where
    "assign_metric h (JObj kvs) ''totalRevenue'' (ascii ''$2.4M'') st = (None, s1)"
    "assign_metric h (JObj kvs) ''conversionRate'' (ascii ''3.47%'') s1 = (None, s2)"
    "assign_metric h (JObj kvs) ''averageBasket'' (lira @ ascii ''347'') s2 = (None, s3)"
    "assign_metric h (JObj kvs) ''totalOrders'' (ascii ''6,847'') s3 = (None, st')"
  using assms
  by (auto simp: updateMetrics_def seq_def split: prod.splits option.splits)

text \<open>
  Claim C10. \<^verbatim>\<open>updateMetrics\<close> substitutes the default whenever a field is falsy, not only
  when it is missing: if a field of the metrics object is present with a falsy value (the
  empty string, 0, false or null) and the update returns normally, the target of that field
  shows the field's default string.
\<close>

theorem updateMetrics_falsy_field_default:
  assumes "(f, d) \<in> set metric_defaults"
    and "map_of kvs (ascii f) = Some v"
    and "\<not> truthy v"
    and "updateMetrics h (JObj kvs) st = (None, st')"
  shows "textContent st' f = d"
proof -
  from assms(4) obtain s1 s2 s3 where
    a: "assign_metric h (JObj kvs) ''totalRevenue'' (ascii ''$2.4M'') st = (None, s1)"
    and b: "assign_metric h (JObj kvs) ''conversionRate'' (ascii ''3.47%'') s1 = (None, s2)"
    and c: "assign_metric h (JObj kvs) ''averageBasket'' (lira @ ascii ''347'') s2 = (None, s3)"
    and d: "assign_metric h (JObj kvs) ''totalOrders'' (ascii ''6,847'') s3 = (None, st')"
    by (rule updateMetrics_steps)
  from assms(1) consider
      "f = ''totalRevenue''" "d = ascii ''$2.4M''"
    | "f = ''conversionRate''" "d = ascii ''3.47%''"
    | "f = ''averageBasket''" "d = lira @ ascii ''347''"
    | "f = ''totalOrders''" "d = ascii ''6,847''"
    by (auto simp: metric_defaults_def)
  then show ?thesis
  proof cases
    case 1
    with a assms(2,3) have "textContent s1 f = d" by (auto dest: assign_metric_falsy_text)
    moreover have "textContent s2 f = textContent s1 f" using assign_metric_other [OF b, of f] 1 by simp
    moreover have "textContent s3 f = textContent s2 f" using assign_metric_other [OF c, of f] 1 by simp
    moreover have "textContent st' f = textContent s3 f" using assign_metric_other [OF d, of f] 1 by simp
    ultimately show ?thesis by simp
  next
    case 2
    with b assms(2,3) have "textContent s2 f = d" by (auto dest: assign_metric_falsy_text)
    moreover have "textContent s3 f = textContent s2 f" using assign_metric_other [OF c, of f] 2 by simp
    moreover have "textContent st' f = textContent s3 f" using assign_metric_other [OF d, of f] 2 by simp
    ultimately show ?thesis by simp
  next
    case 3
    with c assms(2,3) have "textContent s3 f = d" by (auto dest: assign_metric_falsy_text)
    moreover have "textContent st' f = textContent s3 f" using assign_metric_other [OF d, of f] 3 by simp
    ultimately show ?thesis by simp
  next
    case 4
    with d assms(2,3) show ?thesis by (auto dest: assign_metric_falsy_text)
  qed
qed

lemma assign_metric_display:
  "(case map_of kvs (ascii f) of None \<Rightarrow> True | Some v \<Rightarrow> display_string v) \<Longrightarrow>
   assign_metric h (JObj kvs) f d st =
     (None, st\<lparr>textContent := (textContent st)(f := shown kvs f d)\<rparr>)"
  by (cases "map_of kvs (ascii f)"; cases "the (map_of kvs (ascii f))")
     (auto simp: assign_metric_obj js_or_def shown_def)

lemma updateMetrics_absent: "\<not> truthy data \<Longrightarrow> updateMetrics h data st = (None, st)"
  by (simp add: updateMetrics_def skip_def)

lemma updateMetrics_snapshot:
  assumes s: "snapshot kvs"
  shows "updateMetrics h (JObj kvs) st =
      (None, st\<lparr>textContent := (textContent st)
         (''totalRevenue'' := shown kvs ''totalRevenue'' (ascii ''$2.4M''),
          ''conversionRate'' := shown kvs ''conversionRate'' (ascii ''3.47%''),
          ''averageBasket'' := shown kvs ''averageBasket'' (lira @ ascii ''347''),
          ''totalOrders'' := shown kvs ''totalOrders'' (ascii ''6,847''))\<rparr>)"
proof -
  from s have f: "\<And>f d. (f, d) \<in> set metric_defaults \<Longrightarrow>
      (case map_of kvs (ascii f) of None \<Rightarrow> True | Some v \<Rightarrow> display_string v)"
    by (auto simp: snapshot_def list_all_iff)
  have 1: "\<And>st. assign_metric h (JObj kvs) ''totalRevenue'' (ascii ''$2.4M'') st =
     (None, st\<lparr>textContent := (textContent st)(''totalRevenue'' := shown kvs ''totalRevenue'' (ascii ''$2.4M''))\<rparr>)"
    by (rule assign_metric_display, rule f) (simp add: metric_defaults_def)
  have 2: "\<And>st. assign_metric h (JObj kvs) ''conversionRate'' (ascii ''3.47%'') st =
     (None, st\<lparr>textContent := (textContent st)(''conversionRate'' := shown kvs ''conversionRate'' (ascii ''3.47%''))\<rparr>)"
    by (rule assign_metric_display, rule f) (simp add: metric_defaults_def)
  have 3: "\<And>st. assign_metric h (JObj kvs) ''averageBasket'' (lira @ ascii ''347'') st =
     (None, st\<lparr>textContent := (textContent st)(''averageBasket'' := shown kvs ''averageBasket'' (lira @ ascii ''347''))\<rparr>)"
    by (rule assign_metric_display, rule f) (simp add: metric_defaults_def)
  have 4: "\<And>st. assign_metric h (JObj kvs) ''totalOrders'' (ascii ''6,847'') st =
     (None, st\<lparr>textContent := (textContent st)(''totalOrders'' := shown kvs ''totalOrders'' (ascii ''6,847''))\<rparr>)"
    by (rule assign_metric_display, rule f) (simp add: metric_defaults_def)
  show ?thesis
    by (simp add: updateMetrics_def seq_def 1 2 3 4)
qed

text \<open>
  Claim C4. Given the absent sentinel (null) \<^verbatim>\<open>updateMetrics\<close> returns the page as it
  was. Given a snapshot it returns normally and changes nothing but the text of the four
  targets: each target shows the supplied string of its own field, or that field's default
  when the field is missing, whatever the other three fields are.
\<close>

theorem updateMetrics_writes_fields:
  "updateMetrics h JNull st = (None, st) \<and>
   (snapshot kvs \<longrightarrow>
    updateMetrics h (JObj kvs) st =
      (None, st\<lparr>textContent := (textContent st)
         (''totalRevenue'' := shown kvs ''totalRevenue'' (ascii ''$2.4M''),
          ''conversionRate'' := shown kvs ''conversionRate'' (ascii ''3.47%''),
          ''averageBasket'' := shown kvs ''averageBasket'' (lira @ ascii ''347''),
          ''totalOrders'' := shown kvs ''totalOrders'' (ascii ''6,847''))\<rparr>))"
  using updateMetrics_snapshot [of kvs h st] by (simp add: updateMetrics_absent)

theorem updateMetrics_writes_fields_witness:
  "snapshot [(ascii ''totalRevenue'', JStr (ascii ''$9M'')), (ascii ''averageBasket'', JStr (ascii ''12'')),
             (ascii ''totalOrders'', JStr (ascii ''7''))] \<and>
   updateMetrics sample_host
     (JObj [(ascii ''totalRevenue'', JStr (ascii ''$9M'')), (ascii ''averageBasket'', JStr (ascii ''12'')),
             (ascii ''totalOrders'', JStr (ascii ''7''))]) blank_page =
     (None, blank_page\<lparr>textContent := (textContent blank_page)
         (''totalRevenue'' := ascii ''$9M'',
          ''conversionRate'' := ascii ''3.47%'',
          ''averageBasket'' := ascii ''12'',
          ''totalOrders'' := ascii ''7'')\<rparr>)"
  using updateMetrics_writes_fields [of sample_host blank_page
     "[(ascii ''totalRevenue'', JStr (ascii ''$9M'')), (ascii ''averageBasket'', JStr (ascii ''12'')),
             (ascii ''totalOrders'', JStr (ascii ''7''))]"]
  by (simp add: snapshot_def metric_defaults_def shown_def)

theorem updateMetrics_falsy_field_default_witness:
  "(''totalOrders'', ascii ''6,847'') \<in> set metric_defaults \<and>
   map_of [(ascii ''totalRevenue'', JStr []), (ascii ''totalOrders'', JNum 0)] (ascii ''totalOrders'') = Some (JNum 0) \<and>
   \<not> truthy (JNum 0) \<and>
   updateMetrics sample_host (JObj [(ascii ''totalRevenue'', JStr []), (ascii ''totalOrders'', JNum 0)]) blank_page =
     (None, blank_page\<lparr>textContent := (textContent blank_page)
         (''totalRevenue'' := ascii ''$2.4M'',
          ''conversionRate'' := ascii ''3.47%'',
          ''averageBasket'' := lira @ ascii ''347'',
          ''totalOrders'' := ascii ''6,847'')\<rparr>) \<and>
   textContent (blank_page\<lparr>textContent := (textContent blank_page)
         (''totalRevenue'' := ascii ''$2.4M'',
          ''conversionRate'' := ascii ''3.47%'',
          ''averageBasket'' := lira @ ascii ''347'',
          ''totalOrders'' := ascii ''6,847'')\<rparr>) ''totalOrders'' = ascii ''6,847''"
proof -
  have a: "(''totalOrders'', ascii ''6,847'') \<in> set metric_defaults"
    by (simp add: metric_defaults_def)
  have b: "map_of [(ascii ''totalRevenue'', JStr []), (ascii ''totalOrders'', JNum 0)] (ascii ''totalOrders'') = Some (JNum 0)"
    by simp
  have c: "\<not> truthy (JNum 0)" by simp
  have d: "updateMetrics sample_host (JObj [(ascii ''totalRevenue'', JStr []), (ascii ''totalOrders'', JNum 0)]) blank_page =
     (None, blank_page\<lparr>textContent := (textContent blank_page)
         (''totalRevenue'' := ascii ''$2.4M'',
          ''conversionRate'' := ascii ''3.47%'',
          ''averageBasket'' := lira @ ascii ''347'',
          ''totalOrders'' := ascii ''6,847'')\<rparr>)"
    by (simp add: updateMetrics_def seq_def assign_metric_obj js_or_def)
  from updateMetrics_falsy_field_default [OF a b c d] a b c d show ?thesis by simp
qed

section \<open>Chart instances\<close>

lemma get_prop_truthy: "truthy d \<Longrightarrow> \<exists>v. get_prop d k = Inr v"
  by (cases d) auto

lemma has_labels_and_values_total: "has_labels_and_values d = Inr (complete d)"
proof (cases "truthy d")
  case False
  then show ?thesis by (simp add: has_labels_and_values_def complete_def)
next
  case True
  from get_prop_truthy [OF True] obtain l v where
    "get_prop d (ascii ''labels'') = Inr l" "get_prop d (ascii ''values'') = Inr v"
    by blast
  with True show ?thesis by (simp add: has_labels_and_values_def complete_def)
qed

lemma complete_props:
  assumes "complete d"
  obtains l v where "get_prop d (ascii ''labels'') = Inr l" "truthy l"
    "get_prop d (ascii ''values'') = Inr v" "truthy v"
proof -
  from assms have t: "truthy d"
    by (auto simp: complete_def has_labels_and_values_def split: if_splits)
  from get_prop_truthy [OF t] obtain l v where
    "get_prop d (ascii ''labels'') = Inr l" "get_prop d (ascii ''values'') = Inr v"
    by blast
  with assms t that show ?thesis
    by (auto simp: complete_def has_labels_and_values_def split: if_splits)
qed

lemma distinct_live_on: "distinct (live_on st c)"
  by (simp add: live_on_def)

lemma live_on_destroy: "live_on (destroy i st) c = filter (\<lambda>j. j \<noteq> i) (live_on st c)"
proof (cases "i < length (instances st)")
  case True
  then show ?thesis
    by (auto simp: live_on_def destroy_def nth_list_update intro!: filter_cong)
next
  case False
  then show ?thesis
    by (auto simp: live_on_def destroy_def intro!: filter_cong)
qed

lemma live_on_new_Chart:
  "live_on (snd (new_Chart c' cfg st)) c =
     live_on st c @ (if c = c' then [length (instances st)] else [])"
  by (auto simp: live_on_def new_Chart_def nth_append intro!: filter_cong)

lemma live_on_handles [simp]:
  "live_on (st\<lparr>revenueTrendChart := x\<rparr>) c = live_on st c"
  "live_on (st\<lparr>salesByChannelChart := y\<rparr>) c = live_on st c"
  "live_on (st\<lparr>content := z\<rparr>) c = live_on st c"
  "live_on (st\<lparr>textContent := w\<rparr>) c = live_on st c"
  by (simp_all add: live_on_def)

lemma live_on_bound: "i \<in> set (live_on st c) \<Longrightarrow> i < length (instances st)"
  by (simp add: live_on_def)

lemma trend_update_incomplete:
  "\<not> complete d \<Longrightarrow> updateRevenueTrendChart h d st = (None, st)"
  by (simp add: updateRevenueTrendChart_def has_labels_and_values_total)

lemma trend_update_complete:
  "complete d \<Longrightarrow> get_prop d (ascii ''labels'') = Inr l \<Longrightarrow> get_prop d (ascii ''values'') = Inr v \<Longrightarrow>
   updateRevenueTrendChart h d st = (None, replace_trend_chart h l v st)"
  by (simp add: updateRevenueTrendChart_def has_labels_and_values_total)

lemma all_held_None: "list_all (\<lambda>i. None = Some i) xs \<Longrightarrow> xs = []"
  by (cases xs) auto

lemma live_after_release:
  assumes "list_all (\<lambda>i. x = Some i) (live_on st c)"
  shows "live_on (case x of Some i \<Rightarrow> destroy i st | None \<Rightarrow> st) c = []"
proof (cases x)
  case None
  with assms show ?thesis by (simp add: all_held_None)
next
  case (Some i)
  with assms show ?thesis by (auto simp: live_on_destroy filter_empty_conv list_all_iff)
qed

lemma live_after_release_other:
  "set (live_on (case x of Some i \<Rightarrow> destroy i st | None \<Rightarrow> st) c) \<subseteq> set (live_on st c)"
  by (cases x) (auto simp: live_on_destroy)

lemma instances_release [simp]:
  "length (instances (case x of Some i \<Rightarrow> destroy i st | None \<Rightarrow> st)) = length (instances st)"
  by (cases x) (simp_all add: destroy_def)

lemma handles_release [simp]:
  "revenueTrendChart (case x of Some i \<Rightarrow> destroy i st | None \<Rightarrow> st) = revenueTrendChart st"
  "salesByChannelChart (case x of Some i \<Rightarrow> destroy i st | None \<Rightarrow> st) = salesByChannelChart st"
  by (cases x; simp add: destroy_def)+

lemma live_replace_trend:
  assumes "list_all (\<lambda>i. revenueTrendChart st = Some i) (live_on st ''revenueTrendChart'')"
  shows "live_on (replace_trend_chart h l v st) ''revenueTrendChart'' = [length (instances st)]"
proof -
  let ?st1 = "case revenueTrendChart st of Some i \<Rightarrow> destroy i st | None \<Rightarrow> st"
  have "live_on ?st1 ''revenueTrendChart'' = []"
    using assms by (rule live_after_release)
  moreover have "replace_trend_chart h l v st =
      (snd (new_Chart ''revenueTrendChart'' (trend_config h l v) ?st1))
        \<lparr>revenueTrendChart := Some (length (instances ?st1))\<rparr>"
    by (simp add: replace_trend_chart_def new_Chart_def Let_def)
  ultimately show ?thesis
    by (simp add: live_on_new_Chart)
qed

lemma replace_trend_facts:
  "revenueTrendChart (replace_trend_chart h l v st) = Some (length (instances st))"
  "salesByChannelChart (replace_trend_chart h l v st) = salesByChannelChart st"
  "length (instances (replace_trend_chart h l v st)) = Suc (length (instances st))"
  "config (instances (replace_trend_chart h l v st) ! length (instances st)) = trend_config h l v"
  "set (live_on (replace_trend_chart h l v st) ''salesByChannelChart'')
     \<subseteq> set (live_on st ''salesByChannelChart'')"
proof -
  let ?st1 = "case revenueTrendChart st of Some i \<Rightarrow> destroy i st | None \<Rightarrow> st"
  have eq: "replace_trend_chart h l v st =
      (snd (new_Chart ''revenueTrendChart'' (trend_config h l v) ?st1))
        \<lparr>revenueTrendChart := Some (length (instances ?st1))\<rparr>"
    by (simp add: replace_trend_chart_def new_Chart_def Let_def)
  show "revenueTrendChart (replace_trend_chart h l v st) = Some (length (instances st))"
    by (simp add: eq)
  show "salesByChannelChart (replace_trend_chart h l v st) = salesByChannelChart st"
    by (simp add: eq new_Chart_def)
  show "length (instances (replace_trend_chart h l v st)) = Suc (length (instances st))"
    by (simp add: eq new_Chart_def)
  have "length (instances ?st1) = length (instances st)" by simp
  then show "config (instances (replace_trend_chart h l v st) ! length (instances st)) = trend_config h l v"
    by (simp add: eq new_Chart_def nth_append)
  show "set (live_on (replace_trend_chart h l v st) ''salesByChannelChart'')
     \<subseteq> set (live_on st ''salesByChannelChart'')"
    using live_after_release_other [where x = "revenueTrendChart st" and st = st and c = "''salesByChannelChart''"]
    by (simp add: eq live_on_new_Chart)
qed

lemma well_held_replace_trend:
  assumes "well_held st"
  shows "well_held (replace_trend_chart h l v st)"
  using assms live_replace_trend [of st h l v] replace_trend_facts(5) [of h l v st]
  by (auto simp: well_held_def replace_trend_facts(1,2) list_all_iff)

lemma well_held_trend:
  assumes "well_held st"
  shows "well_held (snd (updateRevenueTrendChart h d st))"
proof (cases "complete d")
  case False
  with assms show ?thesis by (simp add: trend_update_incomplete)
next
  case True
  then obtain l v where "get_prop d (ascii ''labels'') = Inr l" "get_prop d (ascii ''values'') = Inr v"
    by (rule complete_props)
  with True assms show ?thesis
    by (simp add: trend_update_complete well_held_replace_trend)
qed

lemma held_at_most_one:
  assumes "list_all (\<lambda>i. x = Some i) (live_on st c)"
  shows "length (live_on st c) \<le> 1"
proof -
  have "set (live_on st c) \<subseteq> set_option x"
    using assms by (auto simp: list_all_iff)
  then have "card (set (live_on st c)) \<le> card (set_option x)"
    by (intro card_mono) auto
  moreover have "card (set_option x) \<le> 1" by (cases x) auto
  moreover have "card (set (live_on st c)) = length (live_on st c)"
    by (rule distinct_card) (rule distinct_live_on)
  ultimately show ?thesis by simp
qed

lemma slice_end_nat: "slice_end len (Finite (of_nat n)) = min n len"
  by (simp add: Let_def)

lemma channel_colors_for_array:
  "channel_colors_for h (JArr ls) = Inr (take (length ls) channelColors)"
  by (simp add: channel_colors_for_def slice0_def slice_end_nat min_def)

lemma legend_loop_frame:
  "legend_loop h cs ls i st = (e, st') \<Longrightarrow>
   instances st' = instances st \<and> revenueTrendChart st' = revenueTrendChart st \<and>
   salesByChannelChart st' = salesByChannelChart st \<and> textContent st' = textContent st"
proof (induction ls arbitrary: i st)
  case Nil
  then show ?case by simp
next
  case (Cons l ls)
  show ?case
  proof (cases "legendItem h cs l i")
    case (Inl x)
    with Cons.prems show ?thesis by simp
  next
    case (Inr el)
    with Cons.prems have "legend_loop h cs ls (Suc i) (appendChild ''channelLegends'' el st) = (e, st')"
      by simp
    from Cons.IH [OF this] show ?thesis by (simp add: appendChild_def)
  qed
qed

lemma createChannelLegends_frame:
  assumes "createChannelLegends h l cs st = (e, st')"
  shows "instances st' = instances st \<and> revenueTrendChart st' = revenueTrendChart st \<and>
   salesByChannelChart st' = salesByChannelChart st \<and> textContent st' = textContent st"
proof (cases l)
  case (JArr ls)
  with assms have "legend_loop h cs ls 0 (set_innerHTML ''channelLegends'' [] st) = (e, st')"
    by (simp add: createChannelLegends_def)
  from legend_loop_frame [OF this] show ?thesis by (simp add: set_innerHTML_def)
qed (use assms in \<open>auto simp: createChannelLegends_def set_innerHTML_def\<close>)

lemma live_on_cong:
  "instances st' = instances st \<Longrightarrow> live_on st' c = live_on st c"
  by (simp add: live_on_def)

lemma live_replace_channel:
  "live_on (replace_channel_chart l v cs st) c =
     live_on st c @ (if c = ''salesByChannelChart'' then [length (instances st)] else [])"
  using live_on_new_Chart [of "''salesByChannelChart''" "channel_config l v cs" st c]
  by (simp add: replace_channel_chart_def new_Chart_def)

lemma replace_channel_facts:
  "salesByChannelChart (replace_channel_chart l v cs st) = Some (length (instances st))"
  "revenueTrendChart (replace_channel_chart l v cs st) = revenueTrendChart st"
  "length (instances (replace_channel_chart l v cs st)) = Suc (length (instances st))"
  "config (instances (replace_channel_chart l v cs st) ! length (instances st)) = channel_config l v cs"
  by (simp_all add: replace_channel_chart_def new_Chart_def)

lemma channel_update_incomplete:
  "\<not> complete d \<Longrightarrow> updateSalesByChannelChart h d st = (None, st)"
  by (simp add: updateSalesByChannelChart_def has_labels_and_values_total)

text \<open>The state in which the channel updater leaves the chart instances.\<close>

lemma channel_update_complete:
  assumes "complete d"
    and "get_prop d (ascii ''labels'') = Inr l" and "get_prop d (ascii ''values'') = Inr v"
    and "updateSalesByChannelChart h d st = (e, st')"
  shows "(\<exists>er. channel_colors_for h l = Inl er \<and> e = Some er \<and>
            st' = (case salesByChannelChart st of Some i \<Rightarrow> destroy i st | None \<Rightarrow> st)) \<or>
         (\<exists>cs. channel_colors_for h l = Inr cs \<and>
            createChannelLegends h l cs
              (replace_channel_chart l v cs
                 (case salesByChannelChart st of Some i \<Rightarrow> destroy i st | None \<Rightarrow> st)) = (e, st'))"
  using assms
  by (cases "channel_colors_for h l")
     (auto simp: updateSalesByChannelChart_def has_labels_and_values_total Let_def)

lemma live_channel_update:
  assumes "list_all (\<lambda>i. salesByChannelChart st = Some i) (live_on st ''salesByChannelChart'')"
    and "complete d"
    and "get_prop d (ascii ''labels'') = Inr l" and "get_prop d (ascii ''values'') = Inr v"
    and "channel_colors_for h l = Inr cs"
    and "updateSalesByChannelChart h d st = (e, st')"
  shows "live_on st' ''salesByChannelChart'' = [length (instances st)] \<and>
         salesByChannelChart st' = Some (length (instances st)) \<and>
         config (instances st' ! length (instances st)) = channel_config l v cs"
proof -
  let ?st1 = "case salesByChannelChart st of Some i \<Rightarrow> destroy i st | None \<Rightarrow> st"
  from channel_update_complete [OF assms(2,3,4,6)] assms(5)
  have c: "createChannelLegends h l cs (replace_channel_chart l v cs ?st1) = (e, st')"
    by auto
  note f = createChannelLegends_frame [OF c]
  have "live_on ?st1 ''salesByChannelChart'' = []"
    using assms(1) by (rule live_after_release)
  then have "live_on (replace_channel_chart l v cs ?st1) ''salesByChannelChart'' = [length (instances st)]"
    by (simp add: live_replace_channel)
  moreover have "live_on st' ''salesByChannelChart'' =
     live_on (replace_channel_chart l v cs ?st1) ''salesByChannelChart''"
    using f by (intro live_on_cong) simp
  ultimately show ?thesis
    using f replace_channel_facts(1,4) [of l v cs ?st1] by simp
qed

lemma well_held_channel:
  assumes "well_held st"
  shows "well_held (snd (updateSalesByChannelChart h d st))"
proof (cases "complete d")
  case False
  with assms show ?thesis by (simp add: channel_update_incomplete)
next
  case True
  let ?st1 = "case salesByChannelChart st of Some i \<Rightarrow> destroy i st | None \<Rightarrow> st"
  obtain e st' where r: "updateSalesByChannelChart h d st = (e, st')"
    by (cases "updateSalesByChannelChart h d st")
  from True obtain l v where p: "get_prop d (ascii ''labels'') = Inr l" "get_prop d (ascii ''values'') = Inr v"
    by (rule complete_props)
  have t1: "set (live_on ?st1 ''revenueTrendChart'') \<subseteq> set (live_on st ''revenueTrendChart'')"
    by (rule live_after_release_other)
  have c1: "live_on ?st1 ''salesByChannelChart'' = []"
    using assms by (intro live_after_release) (simp add: well_held_def)
  from channel_update_complete [OF True p r] show ?thesis
  proof (elim disjE exE conjE)
    fix er
    assume "st' = ?st1"
    with t1 c1 assms r show ?thesis
      by (auto simp: well_held_def list_all_iff)
  next
    fix cs
    assume c: "createChannelLegends h l cs (replace_channel_chart l v cs ?st1) = (e, st')"
    note f = createChannelLegends_frame [OF c]
    have l1: "live_on st' ''salesByChannelChart'' =
       live_on (replace_channel_chart l v cs ?st1) ''salesByChannelChart''"
      using f by (intro live_on_cong) simp
    have l2: "live_on st' ''revenueTrendChart'' =
       live_on (replace_channel_chart l v cs ?st1) ''revenueTrendChart''"
      using f by (intro live_on_cong) simp
    from l1 l2 c1 t1 f assms r show ?thesis
      by (auto simp: well_held_def list_all_iff live_replace_channel replace_channel_facts(1,2))
  qed
qed

text \<open>
  Claim C5. Start from a page whose variables hold every live instance (the page before the
  script has run is one) and call the trend-chart updater twice, with any data; likewise the
  channel-chart updater. Afterwards at most one instance is live on the canvas. When the
  second call has complete data, the only live instance is the one that call constructed,
  from its own labels and values, and the variable holds it: the instance of the first call
  has been destroyed. When the second call has absent or incomplete data it returns the
  page as the first call left it.
\<close>

theorem chart_updaters_single_instance:
  assumes "well_held st"
  shows
    "(let s1 = snd (updateRevenueTrendChart h d1 st);
          s2 = snd (updateRevenueTrendChart h d2 s1)
      in length (live_on s2 ''revenueTrendChart'') \<le> 1 \<and>
         (complete d2 \<longrightarrow>
            live_on s2 ''revenueTrendChart'' = [length (instances s1)] \<and>
            revenueTrendChart s2 = Some (length (instances s1)) \<and>
            (\<forall>l v. get_prop d2 (ascii ''labels'') = Inr l \<and> get_prop d2 (ascii ''values'') = Inr v \<longrightarrow>
               config (instances s2 ! length (instances s1)) = trend_config h l v)) \<and>
         (\<not> complete d2 \<longrightarrow> updateRevenueTrendChart h d2 s1 = (None, s1))) \<and>
     (let t1 = snd (updateSalesByChannelChart h d1 st);
          t2 = snd (updateSalesByChannelChart h d2 t1)
      in length (live_on t2 ''salesByChannelChart'') \<le> 1 \<and>
         (complete d2 \<longrightarrow>
            (\<forall>l v cs. get_prop d2 (ascii ''labels'') = Inr l \<and> get_prop d2 (ascii ''values'') = Inr v \<and>
               channel_colors_for h l = Inr cs \<longrightarrow>
               live_on t2 ''salesByChannelChart'' = [length (instances t1)] \<and>
               salesByChannelChart t2 = Some (length (instances t1)) \<and>
               config (instances t2 ! length (instances t1)) = channel_config l v cs)) \<and>
         (\<not> complete d2 \<longrightarrow> updateSalesByChannelChart h d2 t1 = (None, t1)))"
proof -
  define s1 where "s1 = snd (updateRevenueTrendChart h d1 st)"
  define s2 where "s2 = snd (updateRevenueTrendChart h d2 s1)"
  define t1 where "t1 = snd (updateSalesByChannelChart h d1 st)"
  define t2 where "t2 = snd (updateSalesByChannelChart h d2 t1)"
  have ws1: "well_held s1" unfolding s1_def using assms by (rule well_held_trend)
  have ws2: "well_held s2" unfolding s2_def using ws1 by (rule well_held_trend)
  have wt1: "well_held t1" unfolding t1_def using assms by (rule well_held_channel)
  have wt2: "well_held t2" unfolding t2_def using wt1 by (rule well_held_channel)
  have a1: "length (live_on s2 ''revenueTrendChart'') \<le> 1"
    using ws2 by (intro held_at_most_one [where x = "revenueTrendChart s2"]) (simp add: well_held_def)
  have b1: "length (live_on t2 ''salesByChannelChart'') \<le> 1"
    using wt2 by (intro held_at_most_one [where x = "salesByChannelChart t2"]) (simp add: well_held_def)
  have a2: "live_on s2 ''revenueTrendChart'' = [length (instances s1)] \<and>
            revenueTrendChart s2 = Some (length (instances s1)) \<and>
            (\<forall>l v. get_prop d2 (ascii ''labels'') = Inr l \<and> get_prop d2 (ascii ''values'') = Inr v \<longrightarrow>
               config (instances s2 ! length (instances s1)) = trend_config h l v)"
    if c: "complete d2"
  proof -
    from c obtain l v where p: "get_prop d2 (ascii ''labels'') = Inr l" "get_prop d2 (ascii ''values'') = Inr v"
      by (rule complete_props)
    have "s2 = replace_trend_chart h l v s1"
      by (simp add: s2_def trend_update_complete [OF c p])
    with ws1 p show ?thesis
      by (simp add: live_replace_trend well_held_def replace_trend_facts(1,4))
  qed
  have a3: "updateRevenueTrendChart h d2 s1 = (None, s1)" if "\<not> complete d2"
    using that by (rule trend_update_incomplete)
  have b2: "live_on t2 ''salesByChannelChart'' = [length (instances t1)] \<and>
               salesByChannelChart t2 = Some (length (instances t1)) \<and>
               config (instances t2 ! length (instances t1)) = channel_config l v cs"
    if "complete d2" "get_prop d2 (ascii ''labels'') = Inr l" "get_prop d2 (ascii ''values'') = Inr v"
      "channel_colors_for h l = Inr cs" for l v cs
  proof -
    have w: "list_all (\<lambda>i. salesByChannelChart t1 = Some i) (live_on t1 ''salesByChannelChart'')"
      using wt1 by (simp add: well_held_def)
    have r: "updateSalesByChannelChart h d2 t1 = (fst (updateSalesByChannelChart h d2 t1), t2)"
      by (simp add: t2_def)
    from live_channel_update [OF w that r] show ?thesis .
  qed
  have b3: "updateSalesByChannelChart h d2 t1 = (None, t1)" if "\<not> complete d2"
    using that by (rule channel_update_incomplete)
  from a1 a2 a3 b1 b2 b3 show ?thesis
    unfolding Let_def s1_def [symmetric] s2_def [symmetric] t1_def [symmetric] t2_def [symmetric]
    by blast
qed

lemma well_held_blank: "well_held blank_page"
  by (simp add: well_held_def blank_page_def live_on_def)

theorem chart_updaters_single_instance_witness:
  "well_held blank_page \<and> complete sample_series \<and> \<not> complete JNull \<and>
   (let s1 = snd (updateRevenueTrendChart sample_host sample_series blank_page);
        s2 = snd (updateRevenueTrendChart sample_host sample_series s1)
    in live_on s2 ''revenueTrendChart'' = [length (instances s1)] \<and> length (instances s1) = 1) \<and>
   (let t1 = snd (updateSalesByChannelChart sample_host sample_series blank_page);
        t2 = snd (updateSalesByChannelChart sample_host sample_series t1)
    in live_on t2 ''salesByChannelChart'' = [length (instances t1)]) \<and>
   (let s1 = snd (updateRevenueTrendChart sample_host sample_series blank_page)
    in updateRevenueTrendChart sample_host JNull s1 = (None, s1))"
proof -
  have c: "complete sample_series"
    by (simp add: complete_def has_labels_and_values_def sample_series_def)
  have n: "\<not> complete JNull"
    by (simp add: complete_def has_labels_and_values_def)
  have p: "get_prop sample_series (ascii ''labels'') = Inr (JArr [JStr (ascii ''Web''), JStr (ascii ''App'')])"
    "get_prop sample_series (ascii ''values'') = Inr (JArr [JNum 60, JNum 40])"
    by (simp_all add: sample_series_def)
  have i1: "length (instances (snd (updateRevenueTrendChart sample_host sample_series blank_page))) = 1"
    by (simp add: trend_update_complete [OF c p] replace_trend_facts(3) blank_page_def)
  note k = channel_colors_for_array [of sample_host "[JStr (ascii ''Web''), JStr (ascii ''App'')]"]
  from chart_updaters_single_instance [OF well_held_blank, of sample_host sample_series sample_series]
    chart_updaters_single_instance [OF well_held_blank, of sample_host sample_series JNull]
    c n p i1 k well_held_blank
  show ?thesis
    unfolding Let_def by blast
qed

section \<open>Product cards\<close>

lemma is_product_cases:
  assumes "is_product p"
  obtains kvs name price where "p = JObj kvs"
    "map_of kvs (ascii ''name'') = Some (JStr name)"
    "map_of kvs (ascii ''price'') = Some (JNum price)"
    "map_of kvs (ascii ''iconUrl'') = None \<or> (\<exists>u. map_of kvs (ascii ''iconUrl'') = Some (JStr u))"
    "map_of kvs (ascii ''iconBgColor'') = None \<or> (\<exists>b. map_of kvs (ascii ''iconBgColor'') = Some (JStr b))"
proof (cases p)
  case (JObj kvs)
  with assms that [of kvs] show ?thesis
    by (auto split: option.splits jsval.splits)
qed (use assms in auto)

lemma icon_src_ok:
  assumes "map_of kvs (ascii ''name'') = Some (JStr name)"
    and "map_of kvs (ascii ''iconUrl'') = None \<or> (\<exists>u. map_of kvs (ascii ''iconUrl'') = Some (JStr u))"
  shows "\<exists>s. icon_src h (JObj kvs) = Inr s"
  using assms by (auto simp: icon_src_def)

lemma bg_ok:
  assumes "map_of kvs (ascii ''iconBgColor'') = None \<or> (\<exists>b. map_of kvs (ascii ''iconBgColor'') = Some (JStr b))"
  shows "\<exists>s. ToString h (js_or (case map_of kvs (ascii ''iconBgColor'') of Some v \<Rightarrow> v | None \<Rightarrow> JUndefined)
                 (JStr (ascii ''#3e2e60''))) = Inr s"
  using assms by (auto simp: js_or_def)

lemma product_card_ok:
  assumes "is_product p"
  shows "\<exists>el. product_card h p = Inr el"
proof -
  from assms obtain kvs name price where p: "p = JObj kvs"
    and n: "map_of kvs (ascii ''name'') = Some (JStr name)"
    and pr: "map_of kvs (ascii ''price'') = Some (JNum price)"
    and u: "map_of kvs (ascii ''iconUrl'') = None \<or> (\<exists>u. map_of kvs (ascii ''iconUrl'') = Some (JStr u))"
    and b: "map_of kvs (ascii ''iconBgColor'') = None \<or> (\<exists>b. map_of kvs (ascii ''iconBgColor'') = Some (JStr b))"
    by (rule is_product_cases)
  from icon_src_ok [OF n u] obtain s where s: "icon_src h (JObj kvs) = Inr s" by blast
  from bg_ok [OF b] obtain g where g: "ToString h (js_or (case map_of kvs (ascii ''iconBgColor'') of Some v \<Rightarrow> v | None \<Rightarrow> JUndefined)
                 (JStr (ascii ''#3e2e60''))) = Inr g" by blast
  show ?thesis
    by (simp add: product_card_def p s n pr g)
qed

lemma products_loop_cards:
  "map (product_card h) ps = map Inr cards \<Longrightarrow>
   products_loop h ps st =
     (None, st\<lparr>content := (content st)
        (''topSellingProducts'' := content st ''topSellingProducts'' @ map Child cards)\<rparr>)"
proof (induction ps arbitrary: cards st)
  case Nil
  then show ?case by simp
next
  case (Cons p ps)
  then obtain c cs where cards: "cards = c # cs" and c: "product_card h p = Inr c"
    and cs: "map (product_card h) ps = map Inr cs"
    by (cases cards) auto
  show ?case
    by (simp add: c cards Cons.IH [OF cs] appendChild_def fun_upd_def cong: if_cong)
qed

lemma cards_exist:
  "list_all is_product ps \<Longrightarrow> \<exists>cards. map (product_card h) ps = map Inr cards"
proof (induction ps)
  case Nil
  then show ?case by simp
next
  case (Cons p ps)
  then obtain cs where cs: "map (product_card h) ps = map Inr cs" by auto
  from Cons.prems product_card_ok [of p h] obtain c where "product_card h p = Inr c" by auto
  with cs have "map (product_card h) (p # ps) = map Inr (c # cs)" by simp
  then show ?case by blast
qed

lemma has_products_array:
  "has_products h (JArr ps) = Inr (ps \<noteq> [])"
  by (simp add: has_products_def gt_zero_def)

lemma update_products_absent:
  "\<not> truthy products \<Longrightarrow>
   updateTopSellingProducts h products st =
     (None, st\<lparr>content := (content st)(''topSellingProducts'' := [Markup not_found_row])\<rparr>)"
  by (simp add: updateTopSellingProducts_def has_products_def set_innerHTML_def not_found_row_def)

lemma update_products_empty:
  "updateTopSellingProducts h (JArr []) st =
     (None, st\<lparr>content := (content st)(''topSellingProducts'' := [Markup not_found_row])\<rparr>)"
  by (simp add: updateTopSellingProducts_def has_products_array set_innerHTML_def not_found_row_def)

lemma update_products_cards:
  assumes "ps \<noteq> []" and "map (product_card h) ps = map Inr cards"
  shows "updateTopSellingProducts h (JArr ps) st =
     (None, st\<lparr>content := (content st)(''topSellingProducts'' := map Child cards)\<rparr>)"
  using assms(1)
  by (simp add: updateTopSellingProducts_def has_products_array products_loop_cards [OF assms(2)]
      set_innerHTML_def)

text \<open>
  Claim C6. Given the absent sentinel or an empty sequence, \<^verbatim>\<open>updateTopSellingProducts\<close>
  leaves in the container exactly the one placeholder row and no product card. Given a
  non-empty sequence of \<open>N\<close> product summaries it returns normally and leaves in the
  container exactly \<open>N\<close> appended cards, the card of each product in the order of the
  sequence, whatever the container held before.
\<close>

theorem updateTopSellingProducts_renders:
  "updateTopSellingProducts h JNull st =
     (None, st\<lparr>content := (content st)(''topSellingProducts'' := [Markup not_found_row])\<rparr>) \<and>
   updateTopSellingProducts h (JArr []) st =
     (None, st\<lparr>content := (content st)(''topSellingProducts'' := [Markup not_found_row])\<rparr>) \<and>
   (ps \<noteq> [] \<and> list_all is_product ps \<longrightarrow>
      (\<exists>cards. map (product_card h) ps = map Inr cards \<and>
         list_all (\<lambda>c. className c = card_class) cards \<and>
         length cards = length ps \<and>
         updateTopSellingProducts h (JArr ps) st =
           (None, st\<lparr>content := (content st)(''topSellingProducts'' := map Child cards)\<rparr>)))"
proof (intro conjI impI)
  show "updateTopSellingProducts h JNull st =
     (None, st\<lparr>content := (content st)(''topSellingProducts'' := [Markup not_found_row])\<rparr>)"
    by (simp add: update_products_absent)
  show "updateTopSellingProducts h (JArr []) st =
     (None, st\<lparr>content := (content st)(''topSellingProducts'' := [Markup not_found_row])\<rparr>)"
    by (rule update_products_empty)
next
  assume a: "ps \<noteq> [] \<and> list_all is_product ps"
  then obtain cards where c: "map (product_card h) ps = map Inr cards"
    using cards_exist by blast
  have cl: "className c = card_class" if "c \<in> set cards" for c
  proof -
    from that have "Inr c \<in> set (map (product_card h) ps)" by (simp add: c)
    then obtain p where "product_card h p = Inr c" by auto
    then show ?thesis
      by (auto simp: product_card_def bind_res_def card_class_def split: sum.splits)
  qed
  from c have "length cards = length ps" by (metis length_map)
  with a c cl update_products_cards [OF _ c, of st]
  show "\<exists>cards. map (product_card h) ps = map Inr cards \<and>
         list_all (\<lambda>c. className c = card_class) cards \<and>
         length cards = length ps \<and>
         updateTopSellingProducts h (JArr ps) st =
           (None, st\<lparr>content := (content st)(''topSellingProducts'' := map Child cards)\<rparr>)"
    by (auto simp: list_all_iff)
qed



text \<open>
  Claim C2 says that no updater raises on a payload with missing or malformed fields, in
  particular not \<^verbatim>\<open>updateTopSellingProducts\<close> on a product without a name or without a
  price. The code raises on both: a product with a name and no price, and a product with a
  price and neither name nor icon URL, each end the update with a \<^verbatim>\<open>TypeError\<close>, the
  container cleared and no card appended.
\<close>

theorem updateTopSellingProducts_raises:
  "updateTopSellingProducts h (JArr [JObj [(ascii ''name'', JStr (ascii ''Tablet''))]]) st =
     (Some TypeError, st\<lparr>content := (content st)(''topSellingProducts'' := [])\<rparr>) \<and>
   updateTopSellingProducts h (JArr [JObj [(ascii ''price'', JNum 8750)]]) st =
     (Some TypeError, st\<lparr>content := (content st)(''topSellingProducts'' := [])\<rparr>)"
  by (simp add: updateTopSellingProducts_def has_products_array product_card_def icon_src_def
      set_innerHTML_def js_or_def)

lemma sample_products_ok: "list_all is_product sample_products"
  by (simp add: sample_products_def mock_product_def)

theorem updateTopSellingProducts_renders_witness:
  "sample_products \<noteq> [] \<and> list_all is_product sample_products \<and>
   (\<exists>cards. map (product_card sample_host) sample_products = map Inr cards \<and>
      list_all (\<lambda>c. className c = card_class) cards \<and>
      length cards = 2 \<and>
      updateTopSellingProducts sample_host (JArr sample_products) blank_page =
        (None, blank_page\<lparr>content := (content blank_page)(''topSellingProducts'' := map Child cards)\<rparr>))"
proof -
  have n: "sample_products \<noteq> []" by (simp add: sample_products_def)
  have l: "length sample_products = 2" by (simp add: sample_products_def)
  from updateTopSellingProducts_renders [of sample_host blank_page sample_products]
    n sample_products_ok l
  show ?thesis by simp
qed


section \<open>Channel colours\<close>

lemma legendItem_string:
  "legendItem h cs (JStr l) i =
     Inr \<lparr>className = ascii ''d-flex align-items-center me-3 my-1'',
          innerHTML = legend_markup (swatch cs i) l\<rparr>"
  by (simp add: legendItem_def color_at_def swatch_def)

lemma legend_loop_strings:
  "legend_loop h cs (map JStr ls) i st =
     (None, st\<lparr>content := (content st)
        (''channelLegends'' := content st ''channelLegends'' @ map Child (legend_rows cs ls i))\<rparr>)"
proof (induction ls arbitrary: i st)
  case Nil
  then show ?case by simp
next
  case (Cons l ls)
  show ?case
    by (simp add: legendItem_string Cons.IH appendChild_def fun_upd_def cong: if_cong)
qed

lemma channel_update_strings:
  assumes "truthy v"
  shows "updateSalesByChannelChart h
           (JObj [(ascii ''labels'', JArr (map JStr ls)), (ascii ''values'', v)]) blank_page =
     (None, blank_page
        \<lparr>instances := [\<lparr>canvas = ''salesByChannelChart'',
             config = channel_config (JArr (map JStr ls)) v (take (length ls) channelColors),
             destroyed = False\<rparr>],
         salesByChannelChart := Some 0,
         content := (content blank_page)
           (''channelLegends'' := map Child (legend_rows (take (length ls) channelColors) ls 0))\<rparr>)"
proof -
  have k: "channel_colors_for h (JArr (map JStr ls)) = Inr (take (length ls) channelColors)"
    using channel_colors_for_array [of h "map JStr ls"] by simp
  show ?thesis
    using assms
    by (simp add: updateSalesByChannelChart_def has_labels_and_values_def k
        createChannelLegends_def legend_loop_strings set_innerHTML_def
        replace_channel_chart_def new_Chart_def blank_page_def)
qed

text \<open>
  Claim C1 says that with more than four labels every label beyond the fourth receives the
  fifth, overflow colour of the palette. The code takes \<^verbatim>\<open>channelColors.slice(0, N)\<close>, which
  has at most five entries: with six labels the chart receives five background colours for
  six slices, the fifth legend swatch shows the overflow colour and the sixth shows
  \<^verbatim>\<open>undefined\<close>.
\<close>

theorem channel_colors_sixth_label:
  "(let st' = snd (updateSalesByChannelChart h six_channels blank_page)
    in backgroundColor (config (instances st' ! 0)) = JArr (map JStr channelColors) \<and>
       length (content st' ''channelLegends'') = 6 \<and>
       content st' ''channelLegends'' ! 4 =
         Child \<lparr>className = ascii ''d-flex align-items-center me-3 my-1'',
                innerHTML = legend_markup (ascii ''#A9A9A9'') (ascii ''Phone'')\<rparr> \<and>
       content st' ''channelLegends'' ! 5 =
         Child \<lparr>className = ascii ''d-flex align-items-center me-3 my-1'',
                innerHTML = legend_markup (ascii ''undefined'') (ascii ''Mail'')\<rparr>)"
proof -
  note u = channel_update_strings [of "JArr [JNum 30, JNum 25, JNum 20, JNum 10, JNum 10, JNum 5]" h
      "[ascii ''Web'', ascii ''App'', ascii ''Social'', ascii ''Store'', ascii ''Phone'', ascii ''Mail'']",
      folded six_channels_def]
  show ?thesis
    unfolding Let_def
    by (subst u, simp)+
       (simp add: channel_config_def channelColors_def swatch_def blank_page_def eval_nat_numeral)
qed

section \<open>fetchData\<close>

lemma find_key_string:
  "find_key (JStr s) ks = Inr (find (\<lambda>k. sublist k s) ks)"
  by (induction ks) auto

lemma fetch_body_string:
  "fetch_body h rs (JStr s) =
     Inr (case find (\<lambda>k. sublist k s) (map fst rs) of
            None \<Rightarrow> JNull
          | Some k \<Rightarrow> if k = [] then JNull
                      else (case map_of rs k of Some v \<Rightarrow> v | None \<Rightarrow> JUndefined))"
  by (simp add: fetch_body_def find_key_string split: option.splits)

lemma mock_keys:
  "map fst MOCK_API_RESPONSES =
     [ascii ''/dashboard/metrics'', ascii ''/dashboard/revenue-trend'',
      ascii ''/dashboard/sales-by-channel'', ascii ''/dashboard/top-selling-products'']"
  by (simp add: MOCK_API_RESPONSES_def)

lemma Nil_ascii_iff [simp]: "[] = ascii a \<longleftrightarrow> a = []"
  by (simp add: ascii_def)

lemma mock_keys_nonempty: "k \<in> set (map fst MOCK_API_RESPONSES) \<Longrightarrow> k \<noteq> []"
  unfolding mock_keys by auto

lemma fetchData_resolved: "\<exists>v. fetchData h url = Resolved v"
  by (simp add: fetchData_def split: sum.splits)

lemma fetchData_string_none:
  assumes "\<forall>k \<in> set (map fst MOCK_API_RESPONSES). \<not> sublist k s"
  shows "fetchData h (JStr s) = Resolved JNull"
proof -
  from assms have "find (\<lambda>k. sublist k s) (map fst MOCK_API_RESPONSES) = None"
    by (simp add: find_None_iff)
  then show ?thesis by (simp add: fetchData_def fetch_body_string)
qed

lemma fetchData_string_some:
  assumes "\<exists>k \<in> set (map fst MOCK_API_RESPONSES). sublist k s"
  shows "\<exists>k v. (k, v) \<in> set MOCK_API_RESPONSES \<and> sublist k s \<and> fetchData h (JStr s) = Resolved v"
proof -
  from assms obtain k where f: "find (\<lambda>k. sublist k s) (map fst MOCK_API_RESPONSES) = Some k"
    by (cases "find (\<lambda>k. sublist k s) (map fst MOCK_API_RESPONSES)") (auto simp: find_None_iff)
  then have k: "k \<in> set (map fst MOCK_API_RESPONSES)" and s: "sublist k s"
    by (auto simp: find_Some_iff)
  from k obtain v where v: "map_of MOCK_API_RESPONSES k = Some v"
    by (metis map_of_eq_None_iff not_Some_eq set_map)
  from v have "(k, v) \<in> set MOCK_API_RESPONSES" by (rule map_of_SomeD)
  moreover have "fetchData h (JStr s) = Resolved v"
    using f v mock_keys_nonempty [OF k] by (simp add: fetchData_def fetch_body_string)
  ultimately show ?thesis using s by blast
qed

text \<open>
  Claim C3. For every argument the promise of \<^verbatim>\<open>fetchData\<close> is resolved, never rejected.
  For a URL string that contains a key of the mock table it resolves to a payload registered
  under such a key; for a URL string that contains none it resolves to null; and whenever the
  body raises, the result is null as well.
\<close>

theorem fetchData_never_rejects:
  "(\<exists>v. fetchData h url = Resolved v) \<and>
   ((\<exists>k \<in> set (map fst MOCK_API_RESPONSES). sublist k s) \<longrightarrow>
      (\<exists>k v. (k, v) \<in> set MOCK_API_RESPONSES \<and> sublist k s \<and> fetchData h (JStr s) = Resolved v)) \<and>
   ((\<forall>k \<in> set (map fst MOCK_API_RESPONSES). \<not> sublist k s) \<longrightarrow>
      fetchData h (JStr s) = Resolved JNull) \<and>
   (fetch_body h MOCK_API_RESPONSES url = Inl e \<longrightarrow> fetchData h url = Resolved JNull)"
  using fetchData_resolved [of h url] fetchData_string_some [of s h] fetchData_string_none [of s h]
  by (simp add: fetchData_def)

lemma sublist_ascii [simp]: "sublist (ascii a) (ascii b) \<longleftrightarrow> sublist a b"
proof
  assume "sublist (ascii a) (ascii b)"
  then obtain xs where "sublist xs b" "ascii a = ascii xs"
    unfolding ascii_def by (metis sublist_map_rightE)
  then show "sublist a b" by simp
next
  assume "sublist a b"
  then obtain ps ss where "b = ps @ a @ ss" by (auto simp: sublist_def)
  then have "ascii b = ascii ps @ ascii a @ ascii ss" by (simp add: ascii_def)
  then show "sublist (ascii a) (ascii b)" by (auto simp: sublist_def)
qed

lemma fetch_endpoints:
  "fetchData h (JStr metrics_url) = Resolved mock_metrics"
  "fetchData h (JStr revenueTrend_url) = Resolved mock_revenue_trend"
  "fetchData h (JStr salesByChannel_url) = Resolved mock_sales_by_channel"
  "fetchData h (JStr topSellingProducts_url) = Resolved (JArr mock_top_selling_products)"
  by (simp_all add: fetchData_def fetch_body_string mock_keys sublist_code
      metrics_url_def revenueTrend_url_def salesByChannel_url_def topSellingProducts_url_def
      MOCK_API_RESPONSES_def)

theorem fetchData_never_rejects_witness:
  "list_ex (\<lambda>k. sublist k metrics_url) (map fst MOCK_API_RESPONSES) \<and>
   list_all (\<lambda>k. \<not> sublist k (ascii ''https://api.example.com/other''))
     (map fst MOCK_API_RESPONSES) \<and>
   fetch_body sample_host MOCK_API_RESPONSES (JNum 5) = Inl TypeError \<and>
   (\<exists>k v. (k, v) \<in> set MOCK_API_RESPONSES \<and> sublist k metrics_url \<and>
      fetchData sample_host (JStr metrics_url) = Resolved v) \<and>
   fetchData sample_host (JStr (ascii ''https://api.example.com/other'')) = Resolved JNull \<and>
   fetchData sample_host (JNum 5) = Resolved JNull"
proof -
  have a: "list_ex (\<lambda>k. sublist k metrics_url) (map fst MOCK_API_RESPONSES)"
    by (simp add: mock_keys metrics_url_def sublist_code)
  have b: "list_all (\<lambda>k. \<not> sublist k (ascii ''https://api.example.com/other''))
     (map fst MOCK_API_RESPONSES)"
    by (simp add: mock_keys sublist_code)
  have c: "fetch_body sample_host MOCK_API_RESPONSES (JNum 5) = Inl TypeError"
    by (simp add: fetch_body_def mock_keys)
  from fetchData_never_rejects [of sample_host "JNum 5" metrics_url TypeError]
    fetchData_never_rejects [of sample_host "JNum 5" "ascii ''https://api.example.com/other''" TypeError]
    a b c
  show ?thesis unfolding list_ex_iff list_all_iff by blast
qed

section \<open>The orchestrator\<close>

lemma trend_update_never_raises: "fst (updateRevenueTrendChart h d st) = None"
proof (cases "complete d")
  case False
  then show ?thesis by (simp add: trend_update_incomplete)
next
  case True
  then obtain l v where "get_prop d (ascii ''labels'') = Inr l" "get_prop d (ascii ''values'') = Inr v"
    by (rule complete_props)
  with True show ?thesis by (simp add: trend_update_complete)
qed

lemma products_update_ok:
  assumes "list_all is_product ps"
  shows "fst (updateTopSellingProducts h (JArr ps) st) = None"
proof (cases "ps = []")
  case True
  then show ?thesis by (simp add: update_products_empty)
next
  case False
  from assms obtain cards where "map (product_card h) ps = map Inr cards"
    using cards_exist by blast
  from update_products_cards [OF False this] show ?thesis by simp
qed

lemma release_frame [simp]:
  "content (case x of Some i \<Rightarrow> destroy i st | None \<Rightarrow> st) = content st"
  "textContent (case x of Some i \<Rightarrow> destroy i st | None \<Rightarrow> st) = textContent st"
  by (cases x; simp add: destroy_def)+

lemma replace_trend_frame:
  "content (replace_trend_chart h l v st) = content st"
  "textContent (replace_trend_chart h l v st) = textContent st"
  by (simp_all add: replace_trend_chart_def new_Chart_def Let_def)

lemma replace_channel_frame:
  "content (replace_channel_chart l v cs st) = content st"
  "textContent (replace_channel_chart l v cs st) = textContent st"
  by (simp_all add: replace_channel_chart_def new_Chart_def)

lemma channel_update_strings_any:
  assumes "truthy v"
  shows "updateSalesByChannelChart h
           (JObj [(ascii ''labels'', JArr (map JStr ls)), (ascii ''values'', v)]) st =
     (None,
      (replace_channel_chart (JArr (map JStr ls)) v (take (length ls) channelColors)
         (case salesByChannelChart st of Some i \<Rightarrow> destroy i st | None \<Rightarrow> st))
      \<lparr>content := (content st)
         (''channelLegends'' := map Child (legend_rows (take (length ls) channelColors) ls 0))\<rparr>)"
proof -
  have k: "channel_colors_for h (JArr (map JStr ls)) = Inr (take (length ls) channelColors)"
    using channel_colors_for_array [of h "map JStr ls"] by simp
  show ?thesis
    using assms
    by (simp add: updateSalesByChannelChart_def has_labels_and_values_def k
        createChannelLegends_def legend_loop_strings set_innerHTML_def Let_def
        replace_channel_frame)
qed

lemma length_legend_rows [simp]: "length (legend_rows cs ls i) = length ls"
  by (induction ls arbitrary: i) simp_all

lemma called_ok:
  "fst (p st) = None \<Longrightarrow> called name p st = ([UpdaterCalled name], None, snd (p st))"
  by (cases "p st") (simp add: called_def)

lemma mock_metrics_page:
  "updateMetrics h mock_metrics st =
     (None, st\<lparr>textContent := (textContent st)
        (''totalRevenue'' := lira @ ascii ''2.4M'',
         ''conversionRate'' := ascii ''3.47%'',
         ''averageBasket'' := lira @ ascii ''347'',
         ''totalOrders'' := ascii ''6,847'')\<rparr>)"
proof -
  have "snapshot [(ascii ''totalRevenue'', JStr (lira @ ascii ''2.4M'')),
           (ascii ''conversionRate'', JStr (ascii ''3.47%'')),
           (ascii ''averageBasket'', JStr (lira @ ascii ''347'')),
           (ascii ''totalOrders'', JStr (ascii ''6,847'')),
           (ascii ''totalRevenueChange'', JNum (25 / 2)),
           (ascii ''conversionRateChange'', JNum (16 / 5)),
           (ascii ''averageBasketChange'', JNum (81 / 10)),
           (ascii ''totalOrdersChange'', JNum (153 / 10))]"
    by (simp add: snapshot_def metric_defaults_def lira_def)
  then show ?thesis
    unfolding mock_metrics_def by (simp add: updateMetrics_snapshot shown_def)
qed

lemma mock_trend_page:
  "updateRevenueTrendChart h mock_revenue_trend st =
     (None, replace_trend_chart h
        (JArr (map JStr [ascii ''Oca'', [350] @ ascii ''ub'', ascii ''Mar'', ascii ''Nis'',
                         ascii ''May'', ascii ''Haz'']))
        (JArr [JNum 350000, JNum 380000, JNum 360000, JNum 420000, JNum 450000, JNum 480000]) st)"
proof -
  have c: "complete mock_revenue_trend"
    by (simp add: complete_def has_labels_and_values_def mock_revenue_trend_def)
  show ?thesis
    by (rule trend_update_complete [OF c]) (simp_all add: mock_revenue_trend_def)
qed

lemma mock_channel_page:
  "updateSalesByChannelChart h mock_sales_by_channel st =
     (None,
      (replace_channel_chart
         (JArr (map JStr [ascii ''Web Sitesi'', ascii ''Mobil App'', ascii ''Sosyal Medya'',
                          ascii ''Ma'' @ [287] @ ascii ''aza'']))
         (JArr [JNum 40, JNum 25, JNum 20, JNum 15])
         (take (length [ascii ''Web Sitesi'', ascii ''Mobil App'', ascii ''Sosyal Medya'',
                          ascii ''Ma'' @ [287] @ ascii ''aza'']) channelColors)
         (case salesByChannelChart st of Some i \<Rightarrow> destroy i st | None \<Rightarrow> st))
      \<lparr>content := (content st)
         (''channelLegends'' := map Child (legend_rows
            (take (length [ascii ''Web Sitesi'', ascii ''Mobil App'', ascii ''Sosyal Medya'',
                          ascii ''Ma'' @ [287] @ ascii ''aza'']) channelColors)
            [ascii ''Web Sitesi'', ascii ''Mobil App'', ascii ''Sosyal Medya'',
             ascii ''Ma'' @ [287] @ ascii ''aza''] 0))\<rparr>)"
proof -
  have t: "truthy (JArr [JNum 40, JNum 25, JNum 20, JNum 15])" by simp
  show ?thesis
    unfolding mock_sales_by_channel_def by (rule channel_update_strings_any [OF t])
qed

lemma mock_products_page:
  "\<exists>cards. length cards = 6 \<and>
     updateTopSellingProducts h (JArr mock_top_selling_products) st =
       (None, st\<lparr>content := (content st)(''topSellingProducts'' := map Child cards)\<rparr>)"
proof -
  have p: "list_all is_product mock_top_selling_products"
    by (simp add: mock_top_selling_products_def mock_product_def)
  have n: "mock_top_selling_products \<noteq> []" "length mock_top_selling_products = 6"
    by (simp_all add: mock_top_selling_products_def)
  from p obtain cards where m: "map (product_card h) mock_top_selling_products = map Inr cards"
    using cards_exist by blast
  then have "length cards = 6" using n(2) by (metis length_map)
  with update_products_cards [OF n(1) m] show ?thesis by blast
qed

text \<open>
  Claim C8. Whatever the host and the page, a run of \<^verbatim>\<open>loadDashboardData\<close> shows exactly
  twelve events: for metrics, trend, channel mix and products in this order, the call of
  \<^verbatim>\<open>fetchData\<close>, the settling of its promise, and the call of the updater. Each promise
  settles before the next fetch is called, no fetch is repeated, and the run returns normally
  after the fourth update. The page it leaves is the page the four updaters produce, applied
  in this order to the registered payloads: the four metric targets show the sample texts,
  the two chart variables hold the two instances constructed in this order, the legend has
  four rows and the product grid six cards.
\<close>

theorem loadDashboardData_sequence:
  "(let final = snd (updateTopSellingProducts h (JArr mock_top_selling_products)
                 (snd (updateSalesByChannelChart h mock_sales_by_channel
                   (snd (updateRevenueTrendChart h mock_revenue_trend
                     (snd (updateMetrics h mock_metrics st)))))))
    in loadDashboardData h st =
         ([FetchCalled metrics_url, FetchSettled metrics_url, UpdaterCalled ''updateMetrics'',
           FetchCalled revenueTrend_url, FetchSettled revenueTrend_url,
           UpdaterCalled ''updateRevenueTrendChart'',
           FetchCalled salesByChannel_url, FetchSettled salesByChannel_url,
           UpdaterCalled ''updateSalesByChannelChart'',
           FetchCalled topSellingProducts_url, FetchSettled topSellingProducts_url,
           UpdaterCalled ''updateTopSellingProducts''],
          None, final) \<and>
       textContent final ''totalRevenue'' = lira @ ascii ''2.4M'' \<and>
       textContent final ''conversionRate'' = ascii ''3.47%'' \<and>
       textContent final ''averageBasket'' = lira @ ascii ''347'' \<and>
       textContent final ''totalOrders'' = ascii ''6,847'' \<and>
       revenueTrendChart final = Some (length (instances st)) \<and>
       salesByChannelChart final = Some (Suc (length (instances st))) \<and>
       length (instances final) = Suc (Suc (length (instances st))) \<and>
       length (content final ''channelLegends'') = 4 \<and>
       length (content final ''topSellingProducts'') = 6)"
proof -
  define s1 where "s1 = snd (updateMetrics h mock_metrics st)"
  define s2 where "s2 = snd (updateRevenueTrendChart h mock_revenue_trend s1)"
  define s3 where "s3 = snd (updateSalesByChannelChart h mock_sales_by_channel s2)"
  define s4 where "s4 = snd (updateTopSellingProducts h (JArr mock_top_selling_products) s3)"
  obtain cards where cards: "length cards = 6"
    and u4: "updateTopSellingProducts h (JArr mock_top_selling_products) s3 =
       (None, s3\<lparr>content := (content s3)(''topSellingProducts'' := map Child cards)\<rparr>)"
    using mock_products_page [of h s3] by blast
  have 1: "called ''updateMetrics'' (updateMetrics h mock_metrics) st =
      ([UpdaterCalled ''updateMetrics''], None, s1)"
    unfolding s1_def by (rule called_ok) (simp add: mock_metrics_page)
  have 2: "called ''updateRevenueTrendChart'' (updateRevenueTrendChart h mock_revenue_trend) s1 =
      ([UpdaterCalled ''updateRevenueTrendChart''], None, s2)"
    unfolding s2_def by (rule called_ok) (simp add: mock_trend_page)
  have 3: "called ''updateSalesByChannelChart'' (updateSalesByChannelChart h mock_sales_by_channel) s2 =
      ([UpdaterCalled ''updateSalesByChannelChart''], None, s3)"
    unfolding s3_def by (rule called_ok) (simp add: mock_channel_page)
  have 4: "called ''updateTopSellingProducts''
             (updateTopSellingProducts h (JArr mock_top_selling_products)) s3 =
      ([UpdaterCalled ''updateTopSellingProducts''], None, s4)"
    unfolding s4_def by (rule called_ok) (simp add: u4)
  have t: "truthy mock_sales_by_channel" by (simp add: mock_sales_by_channel_def)
  have run: "loadDashboardData h st =
     ([FetchCalled metrics_url, FetchSettled metrics_url, UpdaterCalled ''updateMetrics'',
       FetchCalled revenueTrend_url, FetchSettled revenueTrend_url,
       UpdaterCalled ''updateRevenueTrendChart'',
       FetchCalled salesByChannel_url, FetchSettled salesByChannel_url,
       UpdaterCalled ''updateSalesByChannelChart'',
       FetchCalled topSellingProducts_url, FetchSettled topSellingProducts_url,
       UpdaterCalled ''updateTopSellingProducts''],
      None, s4)"
    unfolding loadDashboardData_def
    by (simp add: await_fetch_def fetch_endpoints 1 2 3 4 t returned_def)
  have a1: "textContent s1 = (textContent st)
        (''totalRevenue'' := lira @ ascii ''2.4M'',
         ''conversionRate'' := ascii ''3.47%'',
         ''averageBasket'' := lira @ ascii ''347'',
         ''totalOrders'' := ascii ''6,847'')"
    and b1: "instances s1 = instances st"
    by (simp_all add: s1_def mock_metrics_page)
  have a2: "textContent s2 = textContent s1"
    and b2: "length (instances s2) = Suc (length (instances s1))"
    and c2: "revenueTrendChart s2 = Some (length (instances s1))"
    by (simp_all add: s2_def mock_trend_page replace_trend_frame replace_trend_facts)
  have a3: "textContent s3 = textContent s2"
    and b3: "length (instances s3) = Suc (length (instances s2))"
    and c3: "revenueTrendChart s3 = revenueTrendChart s2"
    and d3: "salesByChannelChart s3 = Some (length (instances s2))"
    and e3: "length (content s3 ''channelLegends'') = 4"
    by (simp_all add: s3_def mock_channel_page replace_channel_frame replace_channel_facts)
  have a4: "textContent s4 = textContent s3"
    and b4: "instances s4 = instances s3"
    and c4: "revenueTrendChart s4 = revenueTrendChart s3"
    and d4: "salesByChannelChart s4 = salesByChannelChart s3"
    and e4: "content s4 ''channelLegends'' = content s3 ''channelLegends''"
    and f4: "length (content s4 ''topSellingProducts'') = 6"
    by (simp_all add: s4_def u4 cards)
  show ?thesis
    unfolding Let_def s1_def [symmetric] s2_def [symmetric] s3_def [symmetric] s4_def [symmetric]
    using run by (simp add: a1 a2 a3 a4 b1 b2 b3 b4 c2 c3 c4 d3 d4 e3 e4 f4)
qed

section \<open>Formatting callbacks of the line chart\<close>

lemma trend_tooltip_value:
  "trend_tooltip_label h \<lparr>ctx_dataset_label = JStr (ascii ''Toplam Gelir''), ctx_parsed_y = Some y\<rparr> =
     Inr (ascii ''Toplam Gelir: '' @ lira @ num_to_locale h y)"
  by (simp add: trend_tooltip_label_def js_or_def Let_def ascii_def)

text \<open>
  Claim C9. The line chart that \<^verbatim>\<open>updateRevenueTrendChart\<close> constructs from complete data
  carries a tick callback and a tooltip callback. The tick callback maps a tick value to the
  lira sign, the host's string of the value divided by 1000, and \<^verbatim>\<open>K\<close>. The tooltip
  callback, on a point of the chart's dataset with a non-null value, gives the dataset label
  and a colon followed by the lira sign and the value in the host's Turkish locale format.
\<close>

theorem trend_chart_formats:
  assumes "complete d"
  shows "(let st' = snd (updateRevenueTrendChart h d st);
              cfg = config (instances st' ! length (instances st))
          in \<exists>tick tip.
               y_ticks_callback cfg = Some tick \<and> tooltip_label cfg = Some tip \<and>
               (\<forall>v. tick v = lira @ num_to_string h (num_div h v 1000) @ ascii ''K'') \<and>
               (\<forall>y. tip \<lparr>ctx_dataset_label = dataset_label cfg, ctx_parsed_y = Some y\<rparr> =
                      Inr (ascii ''Toplam Gelir: '' @ lira @ num_to_locale h y)))"
proof -
  from assms obtain l v where p: "get_prop d (ascii ''labels'') = Inr l" "get_prop d (ascii ''values'') = Inr v"
    by (rule complete_props)
  have c: "config (instances (snd (updateRevenueTrendChart h d st)) ! length (instances st)) =
      trend_config h l v"
    by (simp add: trend_update_complete [OF assms p] replace_trend_facts(4))
  show ?thesis
    unfolding Let_def c
    by (simp add: trend_config_def y_ticks_def trend_tooltip_value)
qed

theorem trend_chart_formats_witness:
  "complete sample_series \<and>
   (let st' = snd (updateRevenueTrendChart sample_host sample_series blank_page);
        cfg = config (instances st' ! length (instances blank_page))
    in \<exists>tick tip.
         y_ticks_callback cfg = Some tick \<and> tooltip_label cfg = Some tip \<and>
         tick 50000 = lira @ ascii ''50K'' \<and>
         tip \<lparr>ctx_dataset_label = dataset_label cfg, ctx_parsed_y = Some 480000\<rparr> =
           Inr (ascii ''Toplam Gelir: '' @ lira @ ascii ''480.000''))"
proof -
  have c: "complete sample_series"
    by (simp add: complete_def has_labels_and_values_def sample_series_def)
  have a: "num_to_string sample_host (num_div sample_host 50000 1000) = ascii ''50''"
    by (simp add: sample_host_def ascii_def)
  have b: "num_to_locale sample_host 480000 = ascii ''480.000''"
    by (simp add: sample_host_def ascii_def)
  have k: "ascii ''50'' @ ascii ''K'' = ascii ''50K''" by (simp add: ascii_def)
  from trend_chart_formats [OF c, of sample_host blank_page] c a b k
  show ?thesis
    unfolding Let_def by (metis (no_types, lifting))
qed

end
